theory Spec2Isabelle
  imports Main "HOL-Library.AList"
begin

section \<open>Python values, objects and the object store\<close>

text \<open>
  The module \<^verbatim>\<open>requests_forwarder/core.py\<close> keeps one module-level dictionary
  \<^verbatim>\<open>_state\<close>, replaces the attribute \<^verbatim>\<open>requests.Session.request\<close>, and rewrites the
  arguments of a request before it delegates to the saved original function.
  Values that the code only passes around are \<open>pyval\<close>s. Dictionaries and lists are
  mutable objects: they live in a store (a list of objects, an address is an index) and a
  value refers to them by \<open>PRef\<close>, so that copying an object and updating an object in
  place are different things in the model, as they are in Python.
\<close>

type_synonym addr = nat

datatype pyval =
    PNone
  | PBool bool
  | PInt int
  | PStr string
  | PBytes string
  | PTuple "pyval list"
  | PRef addr

type_synonym pydict = "(pyval \<times> pyval) list"

datatype pyobj =
    ODict pydict
  | OList "pyval list"
  | OInstance nat

type_synonym heap = "pyobj list"

datatype pyerror = ValueError | TypeError

definition heap_get :: "heap \<Rightarrow> addr \<Rightarrow> pyobj option" where
  "heap_get h a = (if a < length h then Some (h ! a) else None)"

definition alloc :: "heap \<Rightarrow> pyobj \<Rightarrow> heap \<times> addr" where
  "alloc h ob = (h @ [ob], length h)"

text \<open>Truth value testing, as \<^verbatim>\<open>if x:\<close> and \<^verbatim>\<open>not x\<close> do it.\<close>

fun truthy :: "heap \<Rightarrow> pyval \<Rightarrow> bool" where
  "truthy h PNone = False"
| "truthy h (PBool b) = b"
| "truthy h (PInt i) = (i \<noteq> 0)"
| "truthy h (PStr s) = (s \<noteq> [])"
| "truthy h (PBytes b) = (b \<noteq> [])"
| "truthy h (PTuple xs) = (xs \<noteq> [])"
| "truthy h (PRef a) =
     (case heap_get h a of
        Some (ODict d) \<Rightarrow> d \<noteq> []
      | Some (OList xs) \<Rightarrow> xs \<noteq> []
      | Some (OInstance i) \<Rightarrow> True
      | None \<Rightarrow> True)"

text \<open>
  Equality of keys, as \<^verbatim>\<open>==\<close> has it on hashable values: \<^verbatim>\<open>True\<close> is \<^verbatim>\<open>1\<close> and
  \<^verbatim>\<open>False\<close> is \<^verbatim>\<open>0\<close>, tuples are equal item by item, a string is never a bytes object.
  \<^verbatim>\<open>d[k] = v\<close> on the dictionary at an address: the value of an equal key is replaced
  where it stands and the key that is there stays, a new key goes to the end.
  \<^verbatim>\<open>xs.append(v)\<close> on the list at an address.
\<close>

fun py_eq :: "pyval \<Rightarrow> pyval \<Rightarrow> bool" where
  "py_eq (PBool b) (PInt i) = (i = (if b then 1 else 0))"
| "py_eq (PInt i) (PBool b) = (i = (if b then 1 else 0))"
| "py_eq (PTuple xs) (PTuple ys) = list_all2 py_eq xs ys"
| "py_eq x y = (x = y)"

fun py_update :: "pyval \<Rightarrow> pyval \<Rightarrow> pydict \<Rightarrow> pydict" where
  "py_update k v [] = [(k, v)]"
| "py_update k v (p # ps) = (if py_eq (fst p) k then (fst p, v) # ps else p # py_update k v ps)"

definition dict_setitem :: "heap \<Rightarrow> addr \<Rightarrow> pyval \<Rightarrow> pyval \<Rightarrow> heap" where
  "dict_setitem h a k v =
     (case heap_get h a of
        Some (ODict d) \<Rightarrow> h[a := ODict (py_update k v d)]
      | _ \<Rightarrow> h)"

definition list_append :: "heap \<Rightarrow> addr \<Rightarrow> pyval \<Rightarrow> heap" where
  "list_append h a v =
     (case heap_get h a of
        Some (OList xs) \<Rightarrow> h[a := OList (xs @ [v])]
      | _ \<Rightarrow> h)"

text \<open>
  The constructor \<^verbatim>\<open>dict(x)\<close>. A dictionary is copied. Any other argument is iterated
  and every item must itself be a sequence of two items, a key that is hashable and a
  value. \<open>items_of\<close> is the iteration (\<open>None\<close>: not iterable).
\<close>

fun items_of :: "heap \<Rightarrow> pyval \<Rightarrow> pyval list option" where
  "items_of h PNone = None"
| "items_of h (PBool b) = None"
| "items_of h (PInt i) = None"
| "items_of h (PStr s) = Some (map (\<lambda>c. PStr [c]) s)"
| "items_of h (PBytes b) = Some (map (\<lambda>c. PInt (of_char c)) b)"
| "items_of h (PTuple xs) = Some xs"
| "items_of h (PRef a) =
     (case heap_get h a of
        Some (ODict d) \<Rightarrow> Some (map fst d)
      | Some (OList xs) \<Rightarrow> Some xs
      | Some (OInstance i) \<Rightarrow> None
      | None \<Rightarrow> None)"

fun hashable :: "heap \<Rightarrow> pyval \<Rightarrow> bool" where
  "hashable h (PTuple xs) = list_all (hashable h) xs"
| "hashable h (PRef a) =
     (case heap_get h a of
        Some (ODict d) \<Rightarrow> False
      | Some (OList xs) \<Rightarrow> False
      | Some (OInstance i) \<Rightarrow> True
      | None \<Rightarrow> True)"
| "hashable h v = True"

fun dict_of_items :: "heap \<Rightarrow> pydict \<Rightarrow> pyval list \<Rightarrow> pyerror + pydict" where
  "dict_of_items h d [] = Inr d"
| "dict_of_items h d (x # xs) =
     (case items_of h x of
        None \<Rightarrow> Inl TypeError
      | Some [k, v] \<Rightarrow>
          (if hashable h k then dict_of_items h (py_update k v d) xs else Inl TypeError)
      | Some _ \<Rightarrow> Inl ValueError)"

definition py_dict :: "heap \<Rightarrow> pyval \<Rightarrow> pyerror + (heap \<times> addr)" where
  "py_dict h x =
     (case x of
        PRef a \<Rightarrow>
          (case heap_get h a of
             Some (ODict d) \<Rightarrow> Inr (alloc h (ODict d))
           | Some (OList xs) \<Rightarrow>
               (case dict_of_items h [] xs of
                  Inl e \<Rightarrow> Inl e
                | Inr d \<Rightarrow> Inr (alloc h (ODict d)))
           | _ \<Rightarrow> Inl TypeError)
      | _ \<Rightarrow>
          (case items_of h x of
             None \<Rightarrow> Inl TypeError
           | Some xs \<Rightarrow>
               (case dict_of_items h [] xs of
                  Inl e \<Rightarrow> Inl e
                | Inr d \<Rightarrow> Inr (alloc h (ODict d)))))"

section \<open>Strings\<close>

text \<open>\<^verbatim>\<open>s.rstrip("/")\<close>, \<^verbatim>\<open>s.split(sep)\<close> and \<^verbatim>\<open>s.partition("=")\<close>.\<close>

definition rstrip :: "char \<Rightarrow> string \<Rightarrow> string" where
  "rstrip c s = rev (dropWhile (\<lambda>x. x = c) (rev s))"

fun split_sep :: "char \<Rightarrow> string \<Rightarrow> string list" where
  "split_sep sep [] = [[]]"
| "split_sep sep (c # cs) =
     (if c = sep then [] # split_sep sep cs
      else (case split_sep sep cs of
              [] \<Rightarrow> [[c]]
            | w # ws \<Rightarrow> (c # w) # ws))"

definition partition_eq :: "string \<Rightarrow> string \<times> string" where
  "partition_eq s =
     (takeWhile (\<lambda>c. c \<noteq> CHR ''='') s, drop 1 (dropWhile (\<lambda>c. c \<noteq> CHR ''='') s))"

section \<open>The library functions the module calls\<close>

text \<open>
  \<^verbatim>\<open>urlparse\<close>, \<^verbatim>\<open>unquote\<close>, \<^verbatim>\<open>bytes.decode("utf-8", errors="replace")\<close> and
  \<^verbatim>\<open>str()\<close> of a value that is not a string belong to the Python standard library, not to
  this module. They are parameters of the model, gathered in one record, so that every
  theorem below holds for whatever these functions compute. Of the result of
  \<^verbatim>\<open>urlparse\<close> the module reads the attribute \<^verbatim>\<open>hostname\<close> only, a string or
  \<^verbatim>\<open>None\<close>; reading it does not raise (CPython computes it by partitioning the network
  location), so \<^verbatim>\<open>urlparse\<close> itself is the only place where parsing can fail.
  Strings are byte strings in the model, as \<open>string\<close> is.
\<close>

datatype parse_result = ParseResult (hostname: "string option")

record pylib =
  urlparse :: "string \<Rightarrow> pyerror + parse_result"
  repr :: "pyval \<Rightarrow> string"
  utf8_decode_replace :: "string \<Rightarrow> string"
  unquote :: "string \<Rightarrow> string"

definition py_str :: "pylib \<Rightarrow> pyval \<Rightarrow> string" where
  "py_str L v = (case v of PStr s \<Rightarrow> s | _ \<Rightarrow> repr L v)"

text \<open>
  \<^verbatim>\<open>parse_qs\<close> with its default arguments, built on \<^verbatim>\<open>parse_qsl\<close>: the query is split at
  \<^verbatim>\<open>&\<close>, each field at its first \<^verbatim>\<open>=\<close>; a field whose value is empty is skipped
  (\<^verbatim>\<open>keep_blank_values=False\<close>); \<^verbatim>\<open>+\<close> becomes a space and both parts are unquoted.
  \<^verbatim>\<open>parse_qs\<close> then collects the values of each name in a list, names in the order of
  their first occurrence. (This is CPython's \<^verbatim>\<open>urllib.parse\<close> with the separator
  \<^verbatim>\<open>&\<close>; releases before 3.9.2 split at \<^verbatim>\<open>;\<close> too.)
\<close>

definition unquote_plus :: "pylib \<Rightarrow> string \<Rightarrow> string" where
  "unquote_plus L s = unquote L (map (\<lambda>c. if c = CHR ''+'' then CHR '' '' else c) s)"

definition parse_qsl :: "pylib \<Rightarrow> string \<Rightarrow> (string \<times> string) list" where
  "parse_qsl L qs =
     concat (map (\<lambda>name_value.
                    (case partition_eq name_value of
                       (name, val) \<Rightarrow>
                         if val \<noteq> [] then [(unquote_plus L name, unquote_plus L val)] else []))
                 (split_sep (CHR ''&'') qs))"

fun parse_qs_add ::
  "(string \<times> string list) list \<Rightarrow> string \<times> string \<Rightarrow> (string \<times> string list) list" where
  "parse_qs_add parsed_result (name, val) =
     (case map_of parsed_result name of
        Some vs \<Rightarrow> AList.update name (vs @ [val]) parsed_result
      | None \<Rightarrow> parsed_result @ [(name, [val])])"

definition parse_qs :: "pylib \<Rightarrow> string \<Rightarrow> (string \<times> string list) list" where
  "parse_qs L qs = foldl parse_qs_add [] (parse_qsl L qs)"

section \<open>Constants and the internal state\<close>

definition DEFAULT_API_HOST :: string where
  "DEFAULT_API_HOST = ''api.telegram.org''"

definition DEFAULT_PROXY_BASE_URL :: string where
  "DEFAULT_PROXY_BASE_URL = ''https://requests-forwarder.ir''"

definition FORWARD_ENDPOINT :: string where
  "FORWARD_ENDPOINT = ''/forward''"

text \<open>
  A request function is either this module's \<^verbatim>\<open>_patched_request\<close> or some other function,
  which the model knows by a number only. The record \<open>proxy_state\<close> is the dictionary
  \<^verbatim>\<open>_state\<close>, field by field; \<open>world\<close> adds the attribute \<^verbatim>\<open>requests.Session.request\<close>,
  which \<^verbatim>\<open>setup_proxy\<close> and \<^verbatim>\<open>disable_proxy\<close> assign.
\<close>

datatype request_fn = PatchedRequest | OtherFn nat

record proxy_state =
  original_request :: "request_fn option"
  proxy_base_url :: "string option"
  proxy_token :: "string option"
  active :: bool
  intercept_all :: bool
  intercepted_hosts :: "string set"
  forwarder_host :: "string option"

record world =
  state :: proxy_state
  Session_request :: "request_fn option"

definition initial_state :: proxy_state where
  "initial_state =
     \<lparr>original_request = None, proxy_base_url = None, proxy_token = None, active = False,
      intercept_all = False, intercepted_hosts = {}, forwarder_host = None\<rparr>"

datatype outcome = Returned | Raised pyerror

section \<open>Public API\<close>

text \<open>
  \<^verbatim>\<open>setup_proxy(proxy_token, proxy_base_url, hosts, intercept_all, extra_hosts)\<close>. The
  token is a string or \<^verbatim>\<open>None\<close>, the two host lists are lists or \<^verbatim>\<open>None\<close>. The function
  returns how the call ended together with the world it leaves behind, so that a raise
  after an assignment would show; the only raise stands before every assignment.
  The calls of the logger change nothing the model holds and are left out.
\<close>

definition resolve_hosts :: "string list option \<Rightarrow> bool \<Rightarrow> string list option \<Rightarrow> string set" where
  "resolve_hosts hosts intercept_all' extra_hosts =
     (if \<not> intercept_all' then
        (case hosts of
           Some (x # xs) \<Rightarrow> set (x # xs)
         | _ \<Rightarrow> {DEFAULT_API_HOST})
        \<union> (case extra_hosts of
             Some (y # ys) \<Rightarrow> set (y # ys)
           | _ \<Rightarrow> {})
      else {})"

definition parse_forwarder_host :: "pylib \<Rightarrow> string \<Rightarrow> string option" where
  "parse_forwarder_host L base_url =
     (case urlparse L base_url of
        Inl e \<Rightarrow> None
      | Inr parsed \<Rightarrow> hostname parsed)"

definition setup_proxy ::
  "pylib \<Rightarrow> string option \<Rightarrow> string \<Rightarrow> string list option \<Rightarrow> bool \<Rightarrow> string list option
     \<Rightarrow> world \<Rightarrow> outcome \<times> world" where
  "setup_proxy L proxy_token' proxy_base_url' hosts intercept_all' extra_hosts w =
     (if proxy_token' = None \<or> proxy_token' = Some [] then (Raised ValueError, w)
      else
        let base_url = rstrip (CHR ''/'') proxy_base_url';
            resolved_hosts = resolve_hosts hosts intercept_all' extra_hosts;
            forwarder_host' = parse_forwarder_host L base_url;
            configured = (state w)\<lparr>proxy_base_url := Some base_url,
                                    proxy_token := proxy_token',
                                    intercept_all := intercept_all',
                                    intercepted_hosts := resolved_hosts,
                                    forwarder_host := forwarder_host'\<rparr>
        in if active (state w) then (Returned, w\<lparr>state := configured\<rparr>)
           else (Returned,
                 w\<lparr>state := configured\<lparr>original_request := Session_request w, active := True\<rparr>,
                   Session_request := Some PatchedRequest\<rparr>))"

definition disable_proxy :: "world \<Rightarrow> world" where
  "disable_proxy w =
     (if \<not> active (state w) then w
      else w\<lparr>Session_request := original_request (state w),
             state := (state w)\<lparr>active := False, original_request := None\<rparr>\<rparr>)"

definition is_active :: "world \<Rightarrow> bool" where
  "is_active w = active (state w)"

definition get_proxy_url :: "world \<Rightarrow> string" where
  "get_proxy_url w = (case proxy_base_url (state w) of None \<Rightarrow> [] | Some u \<Rightarrow> u)"

definition get_intercepted_hosts :: "world \<Rightarrow> string set" where
  "get_intercepted_hosts w = intercepted_hosts (state w)"

section \<open>Patch core\<close>

text \<open>
  A request is what \<^verbatim>\<open>_patched_request(self, method, url, **kwargs)\<close> receives. The
  keyword arguments are a dictionary made for the call, with strings as keys; the values
  may refer to objects of the caller. The function ends by calling the saved original
  function: \<open>Call f r\<close> records that \<open>f\<close> is called with the arguments \<open>r\<close>. What \<open>f\<close>
  then does (the network) is not part of the module.
\<close>

record request =
  self :: pyval
  http_method :: pyval
  url :: pyval
  kwargs :: "(string \<times> pyval) list"

datatype call = Call request_fn request

text \<open>\<^verbatim>\<open>kwargs.get(k)\<close>: \<^verbatim>\<open>None\<close> for a missing key.\<close>

definition kwargs_get :: "(string \<times> pyval) list \<Rightarrow> string \<Rightarrow> pyval" where
  "kwargs_get kw k = (case map_of kw k of None \<Rightarrow> PNone | Some v \<Rightarrow> v)"

text \<open>
  \<^verbatim>\<open>original_request(self, method, url, **kwargs)\<close>. The state holds \<^verbatim>\<open>None\<close> where no
  function was saved, and calling \<^verbatim>\<open>None\<close> raises \<^verbatim>\<open>TypeError\<close>.
\<close>

definition call_original ::
  "request_fn option \<Rightarrow> heap \<Rightarrow> request \<Rightarrow> (pyerror + call) \<times> heap" where
  "call_original f h req =
     (case f of
        None \<Rightarrow> (Inl TypeError, h)
      | Some g \<Rightarrow> (Inr (Call g req), h))"

text \<open>
  The decision. \<^verbatim>\<open>hostname\<close> is a string or \<^verbatim>\<open>None\<close>; the configured hosts are strings,
  so \<^verbatim>\<open>None in intercepted_hosts\<close> is false.
\<close>

definition should_intercept :: "proxy_state \<Rightarrow> string option \<Rightarrow> bool" where
  "should_intercept st hostname' =
     (if intercept_all st then hostname' \<noteq> forwarder_host st
      else (case hostname' of
              None \<Rightarrow> False
            | Some hn \<Rightarrow> hn \<in> intercepted_hosts st))"

text \<open>How an f-string renders a value that is a string or \<^verbatim>\<open>None\<close>.\<close>

definition format_opt :: "string option \<Rightarrow> string" where
  "format_opt x = (case x of None \<Rightarrow> ''None'' | Some s \<Rightarrow> s)"

definition opt_val :: "string option \<Rightarrow> pyval" where
  "opt_val x = (case x of None \<Rightarrow> PNone | Some s \<Rightarrow> PStr s)"

text \<open>
  Prepare headers:
  \<^verbatim>\<open>headers = dict(raw_headers) if raw_headers else {}\<close>, then the two assignments.
\<close>

definition prepare_headers :: "proxy_state \<Rightarrow> heap \<Rightarrow> pyval \<Rightarrow> pyerror + (heap \<times> addr)" where
  "prepare_headers st h raw_headers =
     (case (if truthy h raw_headers then py_dict h raw_headers
            else Inr (alloc h (ODict []))) of
        Inl e \<Rightarrow> Inl e
      | Inr (h1, headers) \<Rightarrow>
          let h2 = dict_setitem h1 headers (PStr ''Authorization'')
                     (PStr (''Bearer '' @ format_opt (proxy_token st)));
              h3 = dict_setitem h2 headers (PStr ''X-Api-Token'') (opt_val (proxy_token st))
          in Inr (h3, headers))"

text \<open>
  The comprehension \<^verbatim>\<open>{k: v[0] if len(v) == 1 else v for k, v in decoded.items()}\<close>.
  A list of values that stays a list is an object of its own.
\<close>

fun unwrap_single :: "heap \<Rightarrow> (string \<times> string list) list \<Rightarrow> heap \<times> pydict" where
  "unwrap_single h [] = (h, [])"
| "unwrap_single h ((k, v) # kvs) =
     (case v of
        [x] \<Rightarrow>
          (case unwrap_single h kvs of
             (h', d) \<Rightarrow> (h', (PStr k, PStr x) # d))
      | _ \<Rightarrow>
          (case alloc h (OList (map PStr v)) of
             (h1, a) \<Rightarrow>
               (case unwrap_single h1 kvs of
                  (h', d) \<Rightarrow> (h', (PStr k, PRef a) # d))))"

text \<open>
  Prepare query params, one branch for each test of the source, in its order:
  \<^verbatim>\<open>None\<close>, \<^verbatim>\<open>dict\<close>, \<^verbatim>\<open>list\<close> or \<^verbatim>\<open>tuple\<close>, \<^verbatim>\<open>bytes\<close>, anything else.
\<close>

definition url_only :: "heap \<Rightarrow> pyval \<Rightarrow> heap \<times> pyval" where
  "url_only h url' =
     (case alloc h (ODict [(PStr ''url'', url')]) of
        (h1, params) \<Rightarrow> (h1, PRef params))"

definition prepare_params :: "pylib \<Rightarrow> heap \<Rightarrow> pyval \<Rightarrow> pyval \<Rightarrow> heap \<times> pyval" where
  "prepare_params L h raw_params url' =
     (case raw_params of
        PNone \<Rightarrow> url_only h url'
      | PRef a \<Rightarrow>
          (case heap_get h a of
             Some (ODict d) \<Rightarrow>
               (case alloc h (ODict d) of
                  (h1, params) \<Rightarrow> (dict_setitem h1 params (PStr ''url'') url', PRef params))
           | Some (OList xs) \<Rightarrow>
               (case alloc h (OList xs) of
                  (h1, params) \<Rightarrow>
                    (list_append h1 params (PTuple [PStr ''url'', url']), PRef params))
           | _ \<Rightarrow> url_only h url')
      | PTuple xs \<Rightarrow>
          (case alloc h (OList xs) of
             (h1, params) \<Rightarrow>
               (list_append h1 params (PTuple [PStr ''url'', url']), PRef params))
      | PBytes b \<Rightarrow>
          (let decoded = parse_qs L (utf8_decode_replace L b) in
           case unwrap_single h decoded of
             (h1, d) \<Rightarrow>
               (case alloc h1 (ODict d) of
                  (h2, params) \<Rightarrow>
                    (dict_setitem h2 params (PStr ''url'') url', PRef params)))
      | _ \<Rightarrow> url_only h url')"

text \<open>
  \<^verbatim>\<open>_patched_request\<close>. It reads \<^verbatim>\<open>_state\<close> and never assigns to it, so the state is an
  argument and not a result. The result is the call it makes, or the exception it raises,
  with the store it leaves. The \<^verbatim>\<open>try\<close> encloses \<^verbatim>\<open>urlparse(str(url))\<close> only.
\<close>

definition patched_request ::
  "pylib \<Rightarrow> proxy_state \<Rightarrow> heap \<Rightarrow> request \<Rightarrow> (pyerror + call) \<times> heap" where
  "patched_request L st h req =
     (let original_request' = original_request st in
      (case urlparse L (py_str L (url req)) of
         Inl e \<Rightarrow> call_original original_request' h req
       | Inr parsed \<Rightarrow>
           (let hostname' = hostname parsed in
            if \<not> should_intercept st hostname' then call_original original_request' h req
            else
              (let forward_url = format_opt (proxy_base_url st) @ FORWARD_ENDPOINT in
               (case prepare_headers st h (kwargs_get (kwargs req) ''headers'') of
                  Inl e \<Rightarrow> (Inl e, h)
                | Inr (h1, headers) \<Rightarrow>
                    (let kwargs1 = AList.update ''headers'' (PRef headers) (kwargs req) in
                     (case prepare_params L h1 (kwargs_get kwargs1 ''params'') (url req) of
                        (h2, params) \<Rightarrow>
                          (let kwargs2 = AList.update ''params'' params kwargs1 in
                           call_original original_request' h2
                             (req\<lparr>url := PStr forward_url, kwargs := kwargs2\<rparr>)))))))))"

text \<open>
  A client calls \<^verbatim>\<open>requests.Session.request\<close>: whatever the attribute holds at that
  moment runs.
\<close>

definition session_request ::
  "pylib \<Rightarrow> world \<Rightarrow> heap \<Rightarrow> request \<Rightarrow> (pyerror + call) \<times> heap" where
  "session_request L w h req =
     (case Session_request w of
        None \<Rightarrow> (Inl TypeError, h)
      | Some PatchedRequest \<Rightarrow> patched_request L (state w) h req
      | Some (OtherFn n) \<Rightarrow> (Inr (Call (OtherFn n) req), h))"

section \<open>An instance of the library functions for concrete runs\<close>

text \<open>
  For running the model on concrete requests the library functions need values. The
  instance follows CPython 3.11 on ASCII input.

  \<open>urlsplit_hostname\<close> is \<^verbatim>\<open>urlsplit\<close> as far as the host name goes, with the \<^verbatim>\<open>hostname\<close>
  property: leading spaces and control characters are stripped and tabs and line breaks
  removed everywhere; the scheme is split off; the network location is what follows
  \<^verbatim>\<open>//\<close> up to the first of \<^verbatim>\<open>/?#\<close>; a bracket without its partner raises \<^verbatim>\<open>ValueError\<close>, and
  so does a bracketed host that is neither an IPv6 address nor an IPvFuture address; the
  host name is the location without user information and port, in lower case up to a
  zone, \<^verbatim>\<open>None\<close> when empty. The check of a host name with characters outside ASCII is
  left out.

  \<open>percent_decode\<close> is \<^verbatim>\<open>unquote\<close> on the bytes of a string, and bytes are their own
  decoding: the replacement of ill-formed UTF-8 by U+FFFD is left out, so the instance is
  CPython on escapes and bytes that are well-formed UTF-8. \<open>bytes_repr\<close> is \<^verbatim>\<open>str()\<close> of a
  bytes object.
\<close>

definition ascii_digit :: "char \<Rightarrow> bool" where
  "ascii_digit c = (let n = (of_char c :: nat) in 48 \<le> n \<and> n \<le> 57)"

definition hex_digit :: "char \<Rightarrow> bool" where
  "hex_digit c =
     (let n = (of_char c :: nat) in
      (48 \<le> n \<and> n \<le> 57) \<or> (65 \<le> n \<and> n \<le> 70) \<or> (97 \<le> n \<and> n \<le> 102))"

definition hex_value :: "char \<Rightarrow> nat" where
  "hex_value c =
     (let n = (of_char c :: nat) in
      if n \<le> 57 then n - 48 else if n \<le> 70 then n - 55 else n - 87)"

definition scheme_char :: "char \<Rightarrow> bool" where
  "scheme_char c =
     (let n = (of_char c :: nat) in
      (97 \<le> n \<and> n \<le> 122) \<or> (65 \<le> n \<and> n \<le> 90) \<or> (48 \<le> n \<and> n \<le> 57)
      \<or> c = CHR ''+'' \<or> c = CHR ''-'' \<or> c = CHR ''.'')"

definition ascii_alpha :: "char \<Rightarrow> bool" where
  "ascii_alpha c =
     (let n = (of_char c :: nat) in (97 \<le> n \<and> n \<le> 122) \<or> (65 \<le> n \<and> n \<le> 90))"

definition ascii_lower :: "char \<Rightarrow> char" where
  "ascii_lower c =
     (let n = (of_char c :: nat) in if 65 \<le> n \<and> n \<le> 90 then char_of (n + 32) else c)"

definition clean_url :: "string \<Rightarrow> string" where
  "clean_url u =
     filter (\<lambda>c. c \<noteq> CHR 0x09 \<and> c \<noteq> CHR 0x0D \<and> c \<noteq> CHR 0x0A)
       (dropWhile (\<lambda>c. (of_char c :: nat) \<le> 32) u)"

definition strip_scheme :: "string \<Rightarrow> string" where
  "strip_scheme u =
     (let pre = takeWhile (\<lambda>c. c \<noteq> CHR '':'') u in
      if pre \<noteq> [] \<and> length pre < length u \<and> ascii_alpha (hd u) \<and> list_all scheme_char pre
      then drop (Suc (length pre)) u
      else u)"

text \<open>The addresses \<^verbatim>\<open>ipaddress.IPv4Address\<close> and \<^verbatim>\<open>ipaddress.IPv6Address\<close> accept.\<close>

definition decimal_value :: "string \<Rightarrow> nat" where
  "decimal_value s = foldl (\<lambda>n c. 10 * n + (of_char c - 48)) 0 s"

definition ipv4_octet :: "string \<Rightarrow> bool" where
  "ipv4_octet s =
     (s \<noteq> [] \<and> list_all ascii_digit s \<and> length s \<le> 3
      \<and> (s = ''0'' \<or> hd s \<noteq> CHR ''0'') \<and> decimal_value s \<le> 255)"

definition ipv4_address :: "string \<Rightarrow> bool" where
  "ipv4_address s =
     (let octets = split_sep (CHR ''.'') s in length octets = 4 \<and> list_all ipv4_octet octets)"

definition hextet :: "string \<Rightarrow> bool" where
  "hextet s = (s \<noteq> [] \<and> list_all hex_digit s \<and> length s \<le> 4)"

definition ipv6_parts :: "string list \<Rightarrow> bool" where
  "ipv6_parts parts =
     (let n = length parts in
      if 9 < n then False
      else
        (case filter (\<lambda>i. parts ! i = []) [1 ..< n - 1] of
           [] \<Rightarrow> n = 8 \<and> list_all hextet parts
         | [skip_index] \<Rightarrow>
             (let parts_hi = (if hd parts = [] then skip_index - 1 else skip_index);
                  parts_lo = (if last parts = [] then n - skip_index - 2 else n - skip_index - 1)
              in (if hd parts = [] then parts_hi = 0 else True)
                 \<and> (if last parts = [] then parts_lo = 0 else True)
                 \<and> parts_hi + parts_lo \<le> 7
                 \<and> list_all hextet (take parts_hi parts)
                 \<and> list_all hextet (drop (n - parts_lo) parts))
         | _ \<Rightarrow> False))"

definition ipv6_address :: "string \<Rightarrow> bool" where
  "ipv6_address s =
     (let addr = takeWhile (\<lambda>c. c \<noteq> CHR ''%'') s;
          scope = drop 1 (dropWhile (\<lambda>c. c \<noteq> CHR ''%'') s);
          parts = split_sep (CHR '':'') addr
      in if CHR ''/'' \<in> set s then False
         else if CHR ''%'' \<in> set s \<and> (scope = [] \<or> CHR ''%'' \<in> set scope) then False
         else if length parts < 3 then False
         else if CHR ''.'' \<in> set (last parts)
           then ipv4_address (last parts) \<and> ipv6_parts (butlast parts @ [''0'', ''0''])
           else ipv6_parts parts)"

definition ipvfuture :: "string \<Rightarrow> bool" where
  "ipvfuture s =
     (let digits = takeWhile hex_digit (drop 1 s);
          rest = dropWhile hex_digit (drop 1 s)
      in digits \<noteq> [] \<and> take 1 rest = ''.'' \<and> drop 1 rest \<noteq> [])"

definition bracketed_host_ok :: "string \<Rightarrow> bool" where
  "bracketed_host_ok s = (if take 1 s = ''v'' then ipvfuture s else ipv6_address s)"

definition after_last_at :: "string \<Rightarrow> string" where
  "after_last_at n = rev (takeWhile (\<lambda>c. c \<noteq> CHR ''@'') (rev n))"

definition between_brackets :: "string \<Rightarrow> string" where
  "between_brackets s =
     takeWhile (\<lambda>c. c \<noteq> CHR '']'') (drop 1 (dropWhile (\<lambda>c. c \<noteq> CHR ''['') s))"

definition host_of_netloc :: "string \<Rightarrow> string option" where
  "host_of_netloc netloc =
     (let hostinfo = after_last_at netloc;
          host =
            (if CHR ''['' \<in> set hostinfo then between_brackets hostinfo
             else takeWhile (\<lambda>c. c \<noteq> CHR '':'') hostinfo)
      in if host = [] then None
         else Some (map ascii_lower (takeWhile (\<lambda>c. c \<noteq> CHR ''%'') host)
                    @ dropWhile (\<lambda>c. c \<noteq> CHR ''%'') host))"

definition urlsplit_hostname :: "string \<Rightarrow> pyerror + parse_result" where
  "urlsplit_hostname u =
     (let rest = strip_scheme (clean_url u) in
      if take 2 rest = ''//'' then
        (let netloc = takeWhile (\<lambda>c. c \<noteq> CHR ''/'' \<and> c \<noteq> CHR ''?'' \<and> c \<noteq> CHR ''#'')
                        (drop 2 rest)
         in if (CHR ''['' \<in> set netloc) \<noteq> (CHR '']'' \<in> set netloc) then Inl ValueError
            else if CHR ''['' \<in> set netloc \<and> \<not> bracketed_host_ok (between_brackets netloc)
              then Inl ValueError
            else Inr (ParseResult (host_of_netloc netloc)))
      else Inr (ParseResult None))"

fun percent_decode :: "string \<Rightarrow> string" where
  "percent_decode (c # a # b # cs) =
     (if c = CHR ''%'' \<and> hex_digit a \<and> hex_digit b
      then char_of (16 * hex_value a + hex_value b) # percent_decode cs
      else c # percent_decode (a # b # cs))"
| "percent_decode cs = cs"

definition hex_char :: "nat \<Rightarrow> char" where
  "hex_char n = (if n < 10 then char_of (48 + n) else char_of (87 + n))"

definition bytes_repr :: "string \<Rightarrow> string" where
  "bytes_repr b =
     (let quote = (if CHR 0x27 \<in> set b \<and> CHR 0x22 \<notin> set b then CHR 0x22 else CHR 0x27);
          escape = (\<lambda>c. let n = (of_char c :: nat) in
                      if c = quote \<or> c = CHR 0x5C then [CHR 0x5C, c]
                      else if c = CHR 0x09 then [CHR 0x5C, CHR ''t'']
                      else if c = CHR 0x0A then [CHR 0x5C, CHR ''n'']
                      else if c = CHR 0x0D then [CHR 0x5C, CHR ''r'']
                      else if n < 32 \<or> 127 \<le> n
                        then [CHR 0x5C, CHR ''x'', hex_char (n div 16), hex_char (n mod 16)]
                      else [c])
      in ''b'' @ [quote] @ concat (map escape b) @ [quote])"

definition ascii_lib :: pylib where
  "ascii_lib =
     \<lparr>urlparse = urlsplit_hostname,
      repr = (\<lambda>v. case v of
                     PBytes b \<Rightarrow> bytes_repr b
                   | PBool b \<Rightarrow> (if b then ''True'' else ''False'')
                   | _ \<Rightarrow> ''None''),
      utf8_decode_replace = (\<lambda>b. b),
      unquote = percent_decode\<rparr>"

section \<open>Notions used to state the properties\<close>

text \<open>
  The headers a caller may pass as a mapping: no headers (\<^verbatim>\<open>None\<close>, or no such keyword
  argument) or a reference to a dictionary. \<open>caller_headers\<close> gives the entries.
\<close>

definition caller_headers :: "heap \<Rightarrow> pyval \<Rightarrow> pydict option" where
  "caller_headers h raw =
     (case raw of
        PNone \<Rightarrow> Some []
      | PRef a \<Rightarrow> (case heap_get h a of Some (ODict d) \<Rightarrow> Some d | _ \<Rightarrow> None)
      | _ \<Rightarrow> None)"

text \<open>
  The invariant of the configuration: while \<^verbatim>\<open>active\<close> is true, the stored token is a
  string and not the empty one.
\<close>

definition token_invariant :: "world \<Rightarrow> bool" where
  "token_invariant w =
     (\<not> active (state w) \<or> (case proxy_token (state w) of None \<Rightarrow> False | Some t \<Rightarrow> t \<noteq> []))"

text \<open>
  Worlds and requests for concrete runs. \<open>native_world\<close> is the process at its start, where
  the attribute holds the function of the \<^verbatim>\<open>requests\<close> library (number 0). The others are
  what \<^verbatim>\<open>setup_proxy\<close> makes of it: with the token alone; with a relay and one host; in
  intercept-all mode; and in intercept-all mode with a relay URL that \<^verbatim>\<open>urlparse\<close> rejects.
  \<open>get_request u kw\<close> is \<^verbatim>\<open>session.request("GET", u, **kw)\<close> on the session at address 0.
\<close>

definition native_world :: world where
  "native_world = \<lparr>state = initial_state, Session_request = Some (OtherFn 0)\<rparr>"

definition telegram_world :: world where
  "telegram_world =
     snd (setup_proxy ascii_lib (Some ''first'') DEFAULT_PROXY_BASE_URL None False None
            native_world)"

definition httpbin_world :: world where
  "httpbin_world =
     snd (setup_proxy ascii_lib (Some ''tok'') ''https://fw.test/'' (Some [''httpbin.org''])
            False None native_world)"

definition intercept_all_world :: world where
  "intercept_all_world =
     snd (setup_proxy ascii_lib (Some ''tok'') ''https://fw.test'' None True None native_world)"

definition unparsed_relay_world :: world where
  "unparsed_relay_world =
     snd (setup_proxy ascii_lib (Some ''tok'') ''https://[fw.test'' None True None native_world)"

definition get_request :: "string \<Rightarrow> (string \<times> pyval) list \<Rightarrow> request" where
  "get_request u kw = \<lparr>self = PRef 0, http_method = PStr ''GET'', url = PStr u, kwargs = kw\<rparr>"

text \<open>
  The worlds the public API can make: the process starts with the initial state and some
  function of the \<^verbatim>\<open>requests\<close> library installed, and then only \<^verbatim>\<open>setup_proxy\<close> and
  \<^verbatim>\<open>disable_proxy\<close> assign. In such a world the hook is installed exactly while the state
  is active, and a function is saved exactly then (\<open>consistent\<close>).
\<close>

inductive reachable :: "pylib \<Rightarrow> world \<Rightarrow> bool" for L :: pylib where
  start: "reachable L \<lparr>state = initial_state, Session_request = Some (OtherFn n)\<rparr>"
| activate:
    "reachable L w \<Longrightarrow>
     reachable L (snd (setup_proxy L proxy_token' proxy_base_url' hosts intercept_all'
                         extra_hosts w))"
| deactivate: "reachable L w \<Longrightarrow> reachable L (disable_proxy w)"

definition consistent :: "world \<Rightarrow> bool" where
  "consistent w =
     (if active (state w)
      then Session_request w = Some PatchedRequest
           \<and> (case original_request (state w) of Some (OtherFn n) \<Rightarrow> True | _ \<Rightarrow> False)
      else original_request (state w) = None
           \<and> (case Session_request w of Some (OtherFn n) \<Rightarrow> True | _ \<Rightarrow> False))"

section \<open>The store under the operations of the hook\<close>

text \<open>
  Every object the hook makes goes to the end of the store, and every update it makes is
  an update of an object it has just made.
\<close>

lemma heap_get_append_old: "a < length h \<Longrightarrow> heap_get (h @ ext) a = heap_get h a"
  by (simp add: heap_get_def nth_append)

lemma heap_get_append_new: "heap_get (h @ [ob]) (length h) = Some ob"
  by (simp add: heap_get_def)

lemma py_eq_str: "py_eq x (PStr s) = (x = PStr s)"
  by (cases x) simp_all

lemma py_update_str [simp]: "py_update (PStr s) v d = AList.update (PStr s) v d"
  by (induction d) (auto simp: py_eq_str)

lemma dict_setitem_new:
  "dict_setitem (h @ [ODict d]) (length h) k v = h @ [ODict (py_update k v d)]"
  by (simp add: dict_setitem_def heap_get_append_new)

lemma list_append_new:
  "list_append (h @ [OList xs]) (length h) v = h @ [OList (xs @ [v])]"
  by (simp add: list_append_def heap_get_append_new)

lemma unwrap_single_prefix: "\<exists>ext d. unwrap_single h kvs = (h @ ext, d)"
proof (induction kvs arbitrary: h)
  case Nil
  show ?case by simp
next
  case (Cons kv kvs)
  obtain k v where kv: "kv = (k, v)" by (cases kv)
  show ?case
  proof (cases "\<exists>x. v = [x]")
    case True
    then obtain x where v: "v = [x]" by blast
    from Cons.IH [of h] obtain ext d where "unwrap_single h kvs = (h @ ext, d)" by blast
    then show ?thesis by (simp add: kv v)
  next
    case False
    from Cons.IH [of "h @ [OList (map PStr v)]"]
    obtain ext d where
      e: "unwrap_single (h @ [OList (map PStr v)]) kvs = ((h @ [OList (map PStr v)]) @ ext, d)"
      by blast
    from False have "unwrap_single h ((k, v) # kvs) =
        (case unwrap_single (h @ [OList (map PStr v)]) kvs of
           (h', d) \<Rightarrow> (h', (PStr k, PRef (length h)) # d))"
      by (cases v rule: list.exhaust; cases "tl v") (auto simp: alloc_def)
    with e show ?thesis by (simp add: kv)
  qed
qed

lemma url_only_eq: "url_only h u = (h @ [ODict [(PStr ''url'', u)]], PRef (length h))"
  by (simp add: url_only_def alloc_def)

lemma prepare_params_prefix:
  "\<exists>ext a. prepare_params L h raw u = (h @ ext, PRef a) \<and> ext \<noteq> []"
proof (cases raw)
  case (PRef a)
  show ?thesis
  proof (cases "heap_get h a")
    case None
    then show ?thesis by (simp add: prepare_params_def PRef url_only_eq)
  next
    case (Some ob)
    then show ?thesis
      by (cases ob)
        (simp_all add: prepare_params_def PRef url_only_eq alloc_def dict_setitem_new list_append_new)
  qed
next
  case (PBytes b)
  obtain ext d where hd: "unwrap_single h (parse_qs L (utf8_decode_replace L b)) = (h @ ext, d)"
    using unwrap_single_prefix by blast
  have "dict_setitem ((h @ ext) @ [ODict d]) (length (h @ ext)) (PStr ''url'') u
          = (h @ ext) @ [ODict (AList.update (PStr ''url'') u d)]"
    using dict_setitem_new [of "h @ ext" d "PStr ''url''" u] by simp
  then show ?thesis
    by (simp add: prepare_params_def PBytes hd alloc_def)
qed (simp_all add: prepare_params_def url_only_eq alloc_def list_append_new)

lemma prepare_headers_grows:
  assumes "prepare_headers st h raw = Inr (h1, a)"
  shows "\<exists>ob. h1 = h @ [ob] \<and> a = length h"
proof -
  have pd: "\<And>h2 a2. py_dict h raw = Inr (h2, a2) \<Longrightarrow> \<exists>d. h2 = h @ [ODict d] \<and> a2 = length h"
    by (auto simp: py_dict_def alloc_def split: pyval.splits option.splits pyobj.splits sum.splits)
  show ?thesis
  proof (cases "truthy h raw")
    case True
    with assms obtain h2 a2 where p: "py_dict h raw = Inr (h2, a2)"
      by (auto simp: prepare_headers_def split: sum.splits)
    from pd [OF p] obtain d where "h2 = h @ [ODict d]" "a2 = length h" by blast
    with assms True p show ?thesis
      by (auto simp: prepare_headers_def Let_def dict_setitem_new)
  next
    case False
    with assms show ?thesis
      by (auto simp: prepare_headers_def Let_def alloc_def dict_setitem_new)
  qed
qed

lemma prepare_headers_ok:
  assumes "caller_headers h raw = Some d"
  shows "prepare_headers st h raw =
           Inr (h @ [ODict (AList.update (PStr ''X-Api-Token'') (opt_val (proxy_token st))
                      (AList.update (PStr ''Authorization'')
                         (PStr (''Bearer '' @ format_opt (proxy_token st))) d))],
                length h)"
proof (cases "truthy h raw")
  case True
  with assms have "py_dict h raw = Inr (h @ [ODict d], length h)"
    by (auto simp: caller_headers_def py_dict_def alloc_def split: pyval.splits option.splits pyobj.splits)
  with True show ?thesis
    by (simp add: prepare_headers_def Let_def dict_setitem_new)
next
  case False
  with assms have "d = []"
    by (auto simp: caller_headers_def split: pyval.splits option.splits pyobj.splits)
  with False show ?thesis
    by (simp add: prepare_headers_def Let_def alloc_def dict_setitem_new)
qed

lemma kwargs_get_update_other:
  "k \<noteq> k' \<Longrightarrow> kwargs_get (AList.update k v kw) k' = kwargs_get kw k'"
  by (simp add: kwargs_get_def update_conv')

lemma heap_get_appended: "heap_get ((h @ [ob]) @ ext) (length h) = Some ob"
  by (simp add: heap_get_def nth_append)

lemma patched_request_passes:
  assumes "urlparse L (py_str L (url req)) = Inr parsed"
      and "\<not> should_intercept st (hostname parsed)"
      and "original_request st = Some f"
  shows "patched_request L st h req = (Inr (Call f req), h)"
  using assms by (simp add: patched_request_def call_original_def)

lemma patched_request_forwards:
  assumes "urlparse L (py_str L (url req)) = Inr parsed"
      and "should_intercept st (hostname parsed)"
      and "original_request st = Some f"
      and "caller_headers h (kwargs_get (kwargs req) ''headers'') = Some d"
  shows "patched_request L st h req =
     (case prepare_params L
             (h @ [ODict (AList.update (PStr ''X-Api-Token'') (opt_val (proxy_token st))
                     (AList.update (PStr ''Authorization'')
                        (PStr (''Bearer '' @ format_opt (proxy_token st))) d))])
             (kwargs_get (kwargs req) ''params'') (url req) of
        (h2, params) \<Rightarrow>
          (Inr (Call f (req\<lparr>url := PStr (format_opt (proxy_base_url st) @ FORWARD_ENDPOINT),
                            kwargs := AList.update ''params'' params
                              (AList.update ''headers'' (PRef (length h)) (kwargs req))\<rparr>)),
           h2))"
  using assms
  by (simp add: patched_request_def call_original_def prepare_headers_ok
      kwargs_get_update_other Let_def split: prod.splits)

lemma patched_request_intercepted_cases:
  assumes "urlparse L (py_str L (url req)) = Inr parsed"
      and "should_intercept st (hostname parsed)"
      and "original_request st = Some f"
  shows "(\<exists>e. patched_request L st h req = (Inl e, h))
         \<or> (\<exists>ob ext kw.
               patched_request L st h req =
                 (Inr (Call f (req\<lparr>url := PStr (format_opt (proxy_base_url st) @ FORWARD_ENDPOINT),
                                   kwargs := kw\<rparr>)),
                  h @ ob # ext))"
proof (cases "prepare_headers st h (kwargs_get (kwargs req) ''headers'')")
  case (Inl e)
  with assms show ?thesis by (simp add: patched_request_def)
next
  case (Inr p)
  obtain h1 a where p: "p = (h1, a)" by (cases p)
  from Inr p obtain ob where h1: "h1 = h @ [ob]" "a = length h"
    using prepare_headers_grows by blast
  obtain ext pa where pp: "prepare_params L (h @ [ob])
      (kwargs_get (AList.update ''headers'' (PRef (length h)) (kwargs req)) ''params'') (url req)
      = ((h @ [ob]) @ ext, PRef pa)"
    using prepare_params_prefix by blast
  from assms Inr p h1 pp
  have "patched_request L st h req =
      (Inr (Call f (req\<lparr>url := PStr (format_opt (proxy_base_url st) @ FORWARD_ENDPOINT),
                        kwargs := AList.update ''params'' (PRef pa)
                          (AList.update ''headers'' (PRef (length h)) (kwargs req))\<rparr>)),
       h @ ob # ext)"
    by (simp add: patched_request_def call_original_def Let_def)
  then show ?thesis by blast
qed

lemma call_original_store: "snd (call_original g h req) = h"
  by (simp add: call_original_def split: option.splits)

lemma patched_request_keeps_store: "\<exists>ext. snd (patched_request L st h req) = h @ ext"
proof (cases "urlparse L (py_str L (url req))")
  case (Inl e)
  then show ?thesis by (simp add: patched_request_def call_original_store)
next
  case (Inr parsed)
  show ?thesis
  proof (cases "should_intercept st (hostname parsed)")
    case False
    with Inr show ?thesis by (simp add: patched_request_def call_original_store)
  next
    case True
    show ?thesis
    proof (cases "prepare_headers st h (kwargs_get (kwargs req) ''headers'')")
      case (Inl e)
      with Inr True show ?thesis by (simp add: patched_request_def)
    next
      case (Inr p)
      obtain h1 a where p: "p = (h1, a)" by (cases p)
      from Inr p obtain ob where h1: "h1 = h @ [ob]" "a = length h"
        using prepare_headers_grows by blast
      obtain ext pa where pp: "prepare_params L (h @ [ob])
          (kwargs_get (AList.update ''headers'' (PRef (length h)) (kwargs req)) ''params'')
          (url req) = ((h @ [ob]) @ ext, PRef pa)"
        using prepare_params_prefix by blast
      from \<open>urlparse L (py_str L (url req)) = Inr parsed\<close> True Inr p h1 pp
      have "snd (patched_request L st h req) = h @ ob # ext"
        by (simp add: patched_request_def Let_def call_original_store)
      then show ?thesis by blast
    qed
  qed
qed

section \<open>Worlds the public API can reach\<close>

text \<open>
  The theorems on the hook below assume that the state holds a saved original function.
  That is so in every active world the API can reach; and in every such world the host set
  is empty in intercept-all mode and the token invariant holds.
\<close>

lemma setup_proxy_consistent:
  "consistent w \<Longrightarrow>
   consistent (snd (setup_proxy L proxy_token' proxy_base_url' hosts intercept_all' extra_hosts w))"
  by (auto simp: consistent_def setup_proxy_def Let_def
      split: option.splits request_fn.splits if_splits)

lemma disable_proxy_consistent: "consistent w \<Longrightarrow> consistent (disable_proxy w)"
  by (auto simp: consistent_def disable_proxy_def split: option.splits request_fn.splits if_splits)

lemma reachable_consistent: "reachable L w \<Longrightarrow> consistent w"
proof (induction rule: reachable.induct)
  case (start n)
  show ?case by (simp add: consistent_def initial_state_def)
next
  case (activate w proxy_token' proxy_base_url' hosts intercept_all' extra_hosts)
  then show ?case by (simp add: setup_proxy_consistent)
next
  case (deactivate w)
  then show ?case by (simp add: disable_proxy_consistent)
qed

lemma reachable_active_has_original:
  assumes "reachable L w" and "active (state w)"
  shows "\<exists>n. original_request (state w) = Some (OtherFn n)"
  using reachable_consistent [OF assms(1)] assms(2)
  by (auto simp: consistent_def split: option.splits request_fn.splits)

lemma reachable_intercept_all_no_hosts:
  "reachable L w \<Longrightarrow> intercept_all (state w) \<Longrightarrow> intercepted_hosts (state w) = {}"
proof (induction rule: reachable.induct)
  case (start n)
  then show ?case by (simp add: initial_state_def)
next
  case (activate w proxy_token' proxy_base_url' hosts intercept_all' extra_hosts)
  then show ?case
    by (auto simp: setup_proxy_def Let_def resolve_hosts_def split: if_splits)
next
  case (deactivate w)
  then show ?case by (auto simp: disable_proxy_def split: if_splits)
qed

lemma setup_proxy_token_invariant:
  "token_invariant w \<Longrightarrow>
   token_invariant (snd (setup_proxy L proxy_token' proxy_base_url' hosts intercept_all'
                           extra_hosts w))"
  by (auto simp: token_invariant_def setup_proxy_def Let_def split: option.splits)

lemma disable_proxy_token_invariant: "token_invariant w \<Longrightarrow> token_invariant (disable_proxy w)"
  by (auto simp: token_invariant_def disable_proxy_def split: option.splits)

lemma reachable_token_invariant: "reachable L w \<Longrightarrow> token_invariant w"
proof (induction rule: reachable.induct)
  case (start n)
  show ?case by (simp add: token_invariant_def initial_state_def)
next
  case (activate w proxy_token' proxy_base_url' hosts intercept_all' extra_hosts)
  then show ?case by (simp add: setup_proxy_token_invariant)
next
  case (deactivate w)
  then show ?case by (simp add: disable_proxy_token_invariant)
qed

section \<open>The library instance on some inputs\<close>

text \<open>The values are those of CPython 3.11.\<close>

lemma urlsplit_hostname_examples:
  "urlsplit_hostname ''https://User@FW.test:8080/health?x=1'' = Inr (ParseResult (Some ''fw.test''))"
  "urlsplit_hostname '' https://httpbin.org/get'' = Inr (ParseResult (Some ''httpbin.org''))"
  "urlsplit_hostname [CHR ''h'', CHR ''t'', CHR 0x09, CHR ''t'', CHR ''p'', CHR '':'', CHR ''/'',
      CHR ''/'', CHR ''h'', CHR 0x0A, CHR ''.'', CHR ''x''] = Inr (ParseResult (Some ''h.x''))"
  "urlsplit_hostname ''http://[example.com]/'' = Inl ValueError"
  "urlsplit_hostname ''http://[1.2.3.4]/'' = Inl ValueError"
  "urlsplit_hostname ''http://[::ffff:1.2.3.4]:80/'' = Inr (ParseResult (Some ''::ffff:1.2.3.4''))"
  "urlsplit_hostname ''http://[FE80::1%ETH0]/'' = Inr (ParseResult (Some ''fe80::1%ETH0''))"
  "urlsplit_hostname ''http://[v1.x]/'' = Inr (ParseResult (Some ''v1.x''))"
  "urlsplit_hostname ''http://[::1/x'' = Inl ValueError"
  "urlsplit_hostname ''photos/cat.png'' = Inr (ParseResult None)"
  "urlsplit_hostname ''mailto:x@y.z'' = Inr (ParseResult None)"
  by code_simp+

lemma parse_qs_examples:
  "parse_qs ascii_lib ''a=1&b=2&a=3&c'' = [(''a'', [''1'', ''3'']), (''b'', [''2''])]"
  "parse_qs ascii_lib ''x=%41%42&y=a+b'' = [(''x'', [''AB'']), (''y'', [''a b''])]"
  "parse_qs ascii_lib ''x=%zz%41'' = [(''x'', [''%zzA''])]"
  "parse_qs ascii_lib ''a=&b=1'' = [(''b'', [''1''])]"
  by code_simp+

lemma bytes_repr_examples:
  "bytes_repr ''https://x/y'' = [CHR ''b'', CHR 0x27] @ ''https://x/y'' @ [CHR 0x27]"
  "bytes_repr [CHR ''a'', CHR 0x27, CHR ''b''] = [CHR ''b'', CHR 0x22, CHR ''a'', CHR 0x27, CHR ''b'', CHR 0x22]"
  by code_simp+

text \<open>
  In a dictionary made from a sequence of pairs, \<^verbatim>\<open>1\<close> and \<^verbatim>\<open>True\<close> are one key, and the
  key that came first stays.
\<close>

lemma dict_of_items_equal_keys:
  "dict_of_items [] [] [PTuple [PInt 1, PStr ''a''], PTuple [PBool True, PStr ''b'']]
     = Inr [(PInt 1, PStr ''b'')]"
  by code_simp

section \<open>The example worlds, evaluated\<close>

lemma telegram_world_eq:
  "telegram_world =
     \<lparr>state = \<lparr>original_request = Some (OtherFn 0),
                proxy_base_url = Some ''https://requests-forwarder.ir'',
                proxy_token = Some ''first'', active = True, intercept_all = False,
                intercepted_hosts = {''api.telegram.org''},
                forwarder_host = Some ''requests-forwarder.ir''\<rparr>,
      Session_request = Some PatchedRequest\<rparr>"
  by code_simp

lemma httpbin_world_eq:
  "httpbin_world =
     \<lparr>state = \<lparr>original_request = Some (OtherFn 0),
                proxy_base_url = Some ''https://fw.test'',
                proxy_token = Some ''tok'', active = True, intercept_all = False,
                intercepted_hosts = {''httpbin.org''},
                forwarder_host = Some ''fw.test''\<rparr>,
      Session_request = Some PatchedRequest\<rparr>"
  by code_simp

lemma intercept_all_world_eq:
  "intercept_all_world =
     \<lparr>state = \<lparr>original_request = Some (OtherFn 0),
                proxy_base_url = Some ''https://fw.test'',
                proxy_token = Some ''tok'', active = True, intercept_all = True,
                intercepted_hosts = {},
                forwarder_host = Some ''fw.test''\<rparr>,
      Session_request = Some PatchedRequest\<rparr>"
  by code_simp

lemma unparsed_relay_world_eq:
  "unparsed_relay_world =
     \<lparr>state = \<lparr>original_request = Some (OtherFn 0),
                proxy_base_url = Some ''https://[fw.test'',
                proxy_token = Some ''tok'', active = True, intercept_all = True,
                intercepted_hosts = {},
                forwarder_host = None\<rparr>,
      Session_request = Some PatchedRequest\<rparr>"
  by code_simp

section \<open>The scenarios of the test suite\<close>

text \<open>
  The model run on what \<^verbatim>\<open>tests/test_core.py\<close> does: it gives the values the tests assert.
\<close>

lemma test_custom_base_url:
  "get_proxy_url (snd (setup_proxy ascii_lib (Some ''tok'') ''https://example.com/'' None False
      None native_world)) = ''https://example.com''"
  by code_simp

lemma test_custom_hosts:
  "get_intercepted_hosts (snd (setup_proxy ascii_lib (Some ''tok'') DEFAULT_PROXY_BASE_URL
      (Some [''api.example.com'', ''other.io'']) False None native_world))
     = {''api.example.com'', ''other.io''}"
  by code_simp

lemma test_extra_hosts_legacy:
  "get_intercepted_hosts (snd (setup_proxy ascii_lib (Some ''tok'') DEFAULT_PROXY_BASE_URL
      None False (Some [''custom.api.example.com'']) native_world))
     = {''api.telegram.org'', ''custom.api.example.com''}"
  by code_simp

lemma test_intercept_all_mode:
  "get_intercepted_hosts intercept_all_world = {} \<and> intercept_all (state intercept_all_world)"
  by (simp add: get_intercepted_hosts_def intercept_all_world_eq)

lemma test_double_activation_updates_config:
  "(let w = snd (setup_proxy ascii_lib (Some ''second'') ''https://new.example.com'' None False
                   None telegram_world)
    in proxy_token (state w) = Some ''second'' \<and> get_proxy_url w = ''https://new.example.com''
       \<and> is_active w)"
  by code_simp

lemma test_query_params_preserved:
  "patched_request ascii_lib (state telegram_world)
     [OInstance 0, ODict [(PStr ''offset'', PStr ''100''), (PStr ''timeout'', PStr ''20'')]]
     (get_request ''https://api.telegram.org/bot123/getUpdates'' [(''params'', PRef 1)])
   = (Inr (Call (OtherFn 0)
        \<lparr>self = PRef 0, http_method = PStr ''GET'',
         url = PStr ''https://requests-forwarder.ir/forward'',
         kwargs = [(''params'', PRef 3), (''headers'', PRef 2)]\<rparr>),
      [OInstance 0,
       ODict [(PStr ''offset'', PStr ''100''), (PStr ''timeout'', PStr ''20'')],
       ODict [(PStr ''Authorization'', PStr ''Bearer first''),
              (PStr ''X-Api-Token'', PStr ''first'')],
       ODict [(PStr ''offset'', PStr ''100''), (PStr ''timeout'', PStr ''20''),
              (PStr ''url'', PStr ''https://api.telegram.org/bot123/getUpdates'')]])"
  by code_simp

lemma test_disabled_passes_through:
  "session_request ascii_lib (disable_proxy telegram_world) [OInstance 0]
     (get_request ''https://api.telegram.org/bot123/getMe'' [])
   = (Inr (Call (OtherFn 0) (get_request ''https://api.telegram.org/bot123/getMe'' [])),
      [OInstance 0])"
  by code_simp

section \<open>Query parameters by shape\<close>

text \<open>
  What \<open>prepare_params\<close> makes of each shape the source tests for. A text query string
  (\<^verbatim>\<open>str\<close>) meets none of the tests and is replaced by the \<^verbatim>\<open>url\<close> entry alone.
\<close>

lemma prepare_params_absent:
  "prepare_params L h PNone u = (h @ [ODict [(PStr ''url'', u)]], PRef (length h))"
  by (simp add: prepare_params_def url_only_eq)

lemma prepare_params_mapping:
  "heap_get h a = Some (ODict d) \<Longrightarrow>
   prepare_params L h (PRef a) u = (h @ [ODict (AList.update (PStr ''url'') u d)], PRef (length h))"
  by (simp add: prepare_params_def alloc_def dict_setitem_new)

lemma prepare_params_list:
  "heap_get h a = Some (OList xs) \<Longrightarrow>
   prepare_params L h (PRef a) u
     = (h @ [OList (xs @ [PTuple [PStr ''url'', u]])], PRef (length h))"
  by (simp add: prepare_params_def alloc_def list_append_new)

lemma prepare_params_tuple:
  "prepare_params L h (PTuple xs) u
     = (h @ [OList (xs @ [PTuple [PStr ''url'', u]])], PRef (length h))"
  by (simp add: prepare_params_def alloc_def list_append_new)

lemma prepare_params_text:
  "prepare_params L h (PStr q) u = (h @ [ODict [(PStr ''url'', u)]], PRef (length h))"
  by (simp add: prepare_params_def url_only_eq)

lemma patched_request_intercepts:
  assumes "urlparse L (py_str L (url req)) = Inr parsed"
      and "should_intercept st (hostname parsed)"
      and "original_request st = Some f"
  shows "case prepare_headers st h (kwargs_get (kwargs req) ''headers'') of
           Inl e \<Rightarrow> patched_request L st h req = (Inl e, h)
         | Inr (h1, headers) \<Rightarrow>
             (case prepare_params L h1 (kwargs_get (kwargs req) ''params'') (url req) of
                (h2, params) \<Rightarrow>
                  patched_request L st h req =
                    (Inr (Call f
                       (req\<lparr>url := PStr (format_opt (proxy_base_url st) @ FORWARD_ENDPOINT),
                             kwargs := AList.update ''params'' params
                               (AList.update ''headers'' (PRef headers) (kwargs req))\<rparr>)),
                     h2))"
  using assms
  by (simp add: patched_request_def call_original_def kwargs_get_update_other Let_def
      split: sum.splits prod.splits)

lemma patched_request_plain:
  assumes "urlparse L (py_str L (url req)) = Inr parsed"
      and "should_intercept st (hostname parsed)"
      and "original_request st = Some f"
      and "caller_headers h (kwargs_get (kwargs req) ''headers'') = Some d"
      and "kwargs_get (kwargs req) ''params'' = PNone"
  shows "patched_request L st h req =
           (Inr (Call f
              (req\<lparr>url := PStr (format_opt (proxy_base_url st) @ FORWARD_ENDPOINT),
                    kwargs := AList.update ''params'' (PRef (Suc (length h)))
                      (AList.update ''headers'' (PRef (length h)) (kwargs req))\<rparr>)),
            h @ [ODict (AList.update (PStr ''X-Api-Token'') (opt_val (proxy_token st))
                    (AList.update (PStr ''Authorization'')
                       (PStr (''Bearer '' @ format_opt (proxy_token st))) d)),
                 ODict [(PStr ''url'', url req)]])"
  using patched_request_forwards [OF assms(1) assms(2) assms(3) assms(4)] assms(5)
  by (simp add: prepare_params_absent)

section \<open>The decision to intercept\<close>

text \<open>
  Claim C1. For a request whose URL parses, handled by the hook with a saved original
  function: the hook passes the request through, that is, it calls the original function
  with \<^verbatim>\<open>self\<close>, method, URL and every keyword argument as received and leaves the store
  alone, exactly when the request is not to be intercepted; and the request is to be
  intercepted, in intercept-all mode, exactly when the parsed host name differs from the
  cached host name of the forwarder, and otherwise exactly when the parsed host name is one
  of the configured hosts. An intercepted request is rewritten: the hook calls the original
  function for the same session and method with the forward URL, the new headers and the
  new query parameters in place of the caller's, every other keyword argument as it
  was. It raises only where the conversion of the caller's headers to a dictionary raises,
  which it does not for headers that are absent or a dictionary; with such headers and no
  query parameters the whole call and the whole store are given.
\<close>

theorem interception_decision:
  assumes "urlparse L (py_str L (url req)) = Inr parsed"
      and "original_request st = Some f"
  shows "((patched_request L st h req = (Inr (Call f req), h)) =
            (\<not> (if intercept_all st then hostname parsed \<noteq> forwarder_host st
                else (\<exists>hn. hostname parsed = Some hn \<and> hn \<in> intercepted_hosts st))))
         \<and> ((if intercept_all st then hostname parsed \<noteq> forwarder_host st
               else (\<exists>hn. hostname parsed = Some hn \<and> hn \<in> intercepted_hosts st))
              \<longrightarrow>
              (case prepare_headers st h (kwargs_get (kwargs req) ''headers'') of
                 Inl e \<Rightarrow> patched_request L st h req = (Inl e, h)
               | Inr (h1, headers) \<Rightarrow>
                   (case prepare_params L h1 (kwargs_get (kwargs req) ''params'') (url req) of
                      (h2, params) \<Rightarrow>
                        patched_request L st h req =
                          (Inr (Call f
                             (req\<lparr>url := PStr (format_opt (proxy_base_url st) @ FORWARD_ENDPOINT),
                                   kwargs := AList.update ''params'' params
                                     (AList.update ''headers'' (PRef headers) (kwargs req))\<rparr>)),
                           h2)))
              \<and> (caller_headers h (kwargs_get (kwargs req) ''headers'') = Some d \<longrightarrow>
                   (case prepare_params L
                           (h @ [ODict (AList.update (PStr ''X-Api-Token'') (opt_val (proxy_token st))
                                   (AList.update (PStr ''Authorization'')
                                      (PStr (''Bearer '' @ format_opt (proxy_token st))) d))])
                           (kwargs_get (kwargs req) ''params'') (url req) of
                      (h2, params) \<Rightarrow>
                        patched_request L st h req =
                          (Inr (Call f
                             (req\<lparr>url := PStr (format_opt (proxy_base_url st) @ FORWARD_ENDPOINT),
                                   kwargs := AList.update ''params'' params
                                     (AList.update ''headers'' (PRef (length h)) (kwargs req))\<rparr>)),
                           h2)))
              \<and> (caller_headers h (kwargs_get (kwargs req) ''headers'') = Some d
                   \<longrightarrow> kwargs_get (kwargs req) ''params'' = PNone
                   \<longrightarrow> patched_request L st h req =
                         (Inr (Call f
                            (req\<lparr>url := PStr (format_opt (proxy_base_url st) @ FORWARD_ENDPOINT),
                                  kwargs := AList.update ''params'' (PRef (Suc (length h)))
                                    (AList.update ''headers'' (PRef (length h)) (kwargs req))\<rparr>)),
                          h @ [ODict (AList.update (PStr ''X-Api-Token'') (opt_val (proxy_token st))
                                  (AList.update (PStr ''Authorization'')
                                     (PStr (''Bearer '' @ format_opt (proxy_token st))) d)),
                               ODict [(PStr ''url'', url req)]])))"
proof -
  have dec: "should_intercept st (hostname parsed) =
      (if intercept_all st then hostname parsed \<noteq> forwarder_host st
       else (\<exists>hn. hostname parsed = Some hn \<and> hn \<in> intercepted_hosts st))"
    by (auto simp: should_intercept_def split: option.splits)
  show ?thesis
  proof (cases "should_intercept st (hostname parsed)")
    case False
    with assms have "patched_request L st h req = (Inr (Call f req), h)"
      by (simp add: patched_request_passes)
    with False dec show ?thesis by simp
  next
    case True
    have ne: "patched_request L st h req \<noteq> (Inr (Call f req), h)"
      using patched_request_intercepted_cases [OF assms(1) True assms(2), of h] by auto
    have a: "case prepare_headers st h (kwargs_get (kwargs req) ''headers'') of
           Inl e \<Rightarrow> patched_request L st h req = (Inl e, h)
         | Inr (h1, headers) \<Rightarrow>
             (case prepare_params L h1 (kwargs_get (kwargs req) ''params'') (url req) of
                (h2, params) \<Rightarrow>
                  patched_request L st h req =
                    (Inr (Call f
                       (req\<lparr>url := PStr (format_opt (proxy_base_url st) @ FORWARD_ENDPOINT),
                             kwargs := AList.update ''params'' params
                               (AList.update ''headers'' (PRef headers) (kwargs req))\<rparr>)),
                     h2))"
      by (rule patched_request_intercepts [OF assms(1) True assms(2)])
    have b: "case prepare_params L
                   (h @ [ODict (AList.update (PStr ''X-Api-Token'') (opt_val (proxy_token st))
                           (AList.update (PStr ''Authorization'')
                              (PStr (''Bearer '' @ format_opt (proxy_token st))) d))])
                   (kwargs_get (kwargs req) ''params'') (url req) of
              (h2, params) \<Rightarrow>
                patched_request L st h req =
                  (Inr (Call f
                     (req\<lparr>url := PStr (format_opt (proxy_base_url st) @ FORWARD_ENDPOINT),
                           kwargs := AList.update ''params'' params
                             (AList.update ''headers'' (PRef (length h)) (kwargs req))\<rparr>)),
                   h2)"
      if "caller_headers h (kwargs_get (kwargs req) ''headers'') = Some d"
      using patched_request_forwards [OF assms(1) True assms(2) that]
      by (simp split: prod.splits)
    have c: "patched_request L st h req =
               (Inr (Call f
                  (req\<lparr>url := PStr (format_opt (proxy_base_url st) @ FORWARD_ENDPOINT),
                        kwargs := AList.update ''params'' (PRef (Suc (length h)))
                          (AList.update ''headers'' (PRef (length h)) (kwargs req))\<rparr>)),
                h @ [ODict (AList.update (PStr ''X-Api-Token'') (opt_val (proxy_token st))
                        (AList.update (PStr ''Authorization'')
                           (PStr (''Bearer '' @ format_opt (proxy_token st))) d)),
                     ODict [(PStr ''url'', url req)]])"
      if "caller_headers h (kwargs_get (kwargs req) ''headers'') = Some d"
        and "kwargs_get (kwargs req) ''params'' = PNone"
      by (rule patched_request_plain [OF assms(1) True assms(2) that])
    from True dec ne a b c show ?thesis by simp
  qed
qed

theorem interception_decision_witness:
  "patched_request ascii_lib (state httpbin_world) [OInstance 0]
       (get_request ''https://example.com/x'' [(''timeout'', PInt 20)])
     = (Inr (Call (OtherFn 0) (get_request ''https://example.com/x'' [(''timeout'', PInt 20)])),
        [OInstance 0])
   \<and> patched_request ascii_lib (state httpbin_world) [OInstance 0]
         (get_request ''https://httpbin.org/get'' [(''timeout'', PInt 20)])
       = (Inr (Call (OtherFn 0)
            \<lparr>self = PRef 0, http_method = PStr ''GET'', url = PStr ''https://fw.test/forward'',
             kwargs = [(''timeout'', PInt 20), (''headers'', PRef 1), (''params'', PRef 2)]\<rparr>),
          [OInstance 0,
           ODict [(PStr ''Authorization'', PStr ''Bearer tok''),
                  (PStr ''X-Api-Token'', PStr ''tok'')],
           ODict [(PStr ''url'', PStr ''https://httpbin.org/get'')]])
   \<and> patched_request ascii_lib (state intercept_all_world) [OInstance 0]
         (get_request ''https://fw.test/health'' [])
       = (Inr (Call (OtherFn 0) (get_request ''https://fw.test/health'' [])), [OInstance 0])
   \<and> patched_request ascii_lib (state intercept_all_world) [OInstance 0]
         (get_request ''https://example.com/x'' [])
       = (Inr (Call (OtherFn 0)
            \<lparr>self = PRef 0, http_method = PStr ''GET'', url = PStr ''https://fw.test/forward'',
             kwargs = [(''headers'', PRef 1), (''params'', PRef 2)]\<rparr>),
          [OInstance 0,
           ODict [(PStr ''Authorization'', PStr ''Bearer tok''),
                  (PStr ''X-Api-Token'', PStr ''tok'')],
           ODict [(PStr ''url'', PStr ''https://example.com/x'')]])"
proof -
  have p1: "urlparse ascii_lib (py_str ascii_lib
      (url (get_request ''https://example.com/x'' [(''timeout'', PInt 20)])))
      = Inr (ParseResult (Some ''example.com''))"
    by code_simp
  have p2: "urlparse ascii_lib (py_str ascii_lib
      (url (get_request ''https://httpbin.org/get'' [(''timeout'', PInt 20)])))
      = Inr (ParseResult (Some ''httpbin.org''))"
    by code_simp
  have p3: "urlparse ascii_lib (py_str ascii_lib (url (get_request ''https://fw.test/health'' [])))
      = Inr (ParseResult (Some ''fw.test''))"
    by code_simp
  have p4: "urlparse ascii_lib (py_str ascii_lib (url (get_request ''https://example.com/x'' [])))
      = Inr (ParseResult (Some ''example.com''))"
    by code_simp
  have o1: "original_request (state httpbin_world) = Some (OtherFn 0)"
    by (simp add: httpbin_world_eq)
  have o2: "original_request (state intercept_all_world) = Some (OtherFn 0)"
    by (simp add: intercept_all_world_eq)
  have c2: "caller_headers [OInstance 0]
      (kwargs_get (kwargs (get_request ''https://httpbin.org/get'' [(''timeout'', PInt 20)]))
         ''headers'') = Some []"
    by code_simp
  have n2: "kwargs_get (kwargs (get_request ''https://httpbin.org/get'' [(''timeout'', PInt 20)]))
      ''params'' = PNone"
    by code_simp
  have c4: "caller_headers [OInstance 0]
      (kwargs_get (kwargs (get_request ''https://example.com/x'' [])) ''headers'') = Some []"
    by code_simp
  have n4: "kwargs_get (kwargs (get_request ''https://example.com/x'' [])) ''params'' = PNone"
    by code_simp
  from interception_decision [OF p1 o1, of "[OInstance 0]"]
       interception_decision [OF p2 o1, of "[OInstance 0]" "[]"]
       interception_decision [OF p3 o2, of "[OInstance 0]"]
       interception_decision [OF p4 o2, of "[OInstance 0]" "[]"]
       c2 n2 c4 n4
  show ?thesis
    by (simp add: httpbin_world_eq intercept_all_world_eq get_request_def opt_val_def
        format_opt_def FORWARD_ENDPOINT_def)
qed

section \<open>Query parameters of an intercepted request\<close>

text \<open>
  Whatever \<^verbatim>\<open>unquote\<close> computes, \<^verbatim>\<open>parse_qs\<close> skips a field whose value is empty.
\<close>

lemma parse_qs_skips_blank_value:
  "parse_qs L ''a=&b=1'' = [(unquote_plus L ''b'', [unquote_plus L ''1''])]"
  by (simp add: parse_qs_def parse_qsl_def partition_eq_def)

text \<open>
  Claim C2 says that the query parameters of the rewritten request hold the original URL
  under \<^verbatim>\<open>url\<close> and keep every other parameter of the caller, also when the caller gives a
  raw encoded query string. The code does not: for the bytes \<^verbatim>\<open>a=&b=1\<close> it sends \<^verbatim>\<open>b\<close> and
  \<^verbatim>\<open>url\<close> only, because \<^verbatim>\<open>parse_qs\<close> skips fields with an empty value; the same
  parameters given as a dictionary are all kept; and a query string given as text is
  dropped whole. The theorem runs the hook on these three requests.
\<close>

theorem blank_query_value_is_dropped:
  "patched_request ascii_lib (state httpbin_world) [OInstance 0]
       (get_request ''https://httpbin.org/get'' [(''params'', PBytes ''a=&b=1'')])
     = (Inr (Call (OtherFn 0)
          \<lparr>self = PRef 0, http_method = PStr ''GET'', url = PStr ''https://fw.test/forward'',
           kwargs = [(''params'', PRef 2), (''headers'', PRef 1)]\<rparr>),
        [OInstance 0,
         ODict [(PStr ''Authorization'', PStr ''Bearer tok''),
                (PStr ''X-Api-Token'', PStr ''tok'')],
         ODict [(PStr ''b'', PStr ''1''),
                (PStr ''url'', PStr ''https://httpbin.org/get'')]])
   \<and> patched_request ascii_lib (state httpbin_world)
         [OInstance 0, ODict [(PStr ''a'', PStr []), (PStr ''b'', PStr ''1'')]]
         (get_request ''https://httpbin.org/get'' [(''params'', PRef 1)])
       = (Inr (Call (OtherFn 0)
            \<lparr>self = PRef 0, http_method = PStr ''GET'', url = PStr ''https://fw.test/forward'',
             kwargs = [(''params'', PRef 3), (''headers'', PRef 2)]\<rparr>),
          [OInstance 0,
           ODict [(PStr ''a'', PStr []), (PStr ''b'', PStr ''1'')],
           ODict [(PStr ''Authorization'', PStr ''Bearer tok''),
                  (PStr ''X-Api-Token'', PStr ''tok'')],
           ODict [(PStr ''a'', PStr []), (PStr ''b'', PStr ''1''),
                  (PStr ''url'', PStr ''https://httpbin.org/get'')]])
   \<and> patched_request ascii_lib (state httpbin_world) [OInstance 0]
         (get_request ''https://httpbin.org/get'' [(''params'', PStr ''a=1&b=2'')])
       = (Inr (Call (OtherFn 0)
            \<lparr>self = PRef 0, http_method = PStr ''GET'', url = PStr ''https://fw.test/forward'',
             kwargs = [(''params'', PRef 2), (''headers'', PRef 1)]\<rparr>),
          [OInstance 0,
           ODict [(PStr ''Authorization'', PStr ''Bearer tok''),
                  (PStr ''X-Api-Token'', PStr ''tok'')],
           ODict [(PStr ''url'', PStr ''https://httpbin.org/get'')]])"
  by code_simp

section \<open>Activation with an empty token\<close>

text \<open>
  Claim C3. A call of \<^verbatim>\<open>setup_proxy\<close> with a falsy token (\<^verbatim>\<open>None\<close> or the empty string)
  raises \<^verbatim>\<open>ValueError\<close>, whatever the other arguments and whatever the world before the
  call, active or not; the world after the call is the world before it, so every field of
  \<^verbatim>\<open>_state\<close> and the installed request function are as they were.
\<close>

theorem setup_proxy_rejects_empty_token:
  assumes "proxy_token' = None \<or> proxy_token' = Some []"
  shows "setup_proxy L proxy_token' proxy_base_url' hosts intercept_all' extra_hosts w
           = (Raised ValueError, w)"
  using assms by (auto simp: setup_proxy_def)

theorem setup_proxy_rejects_empty_token_witness:
  "active (state telegram_world)
   \<and> setup_proxy ascii_lib (Some []) ''https://fw.test'' (Some [''httpbin.org'']) True None
        telegram_world = (Raised ValueError, telegram_world)
   \<and> setup_proxy ascii_lib None ''https://fw.test'' None False None native_world
        = (Raised ValueError, native_world)"
  using setup_proxy_rejects_empty_token [of "Some []" ascii_lib "''https://fw.test''"
      "Some [''httpbin.org'']" True None telegram_world]
    setup_proxy_rejects_empty_token [of None ascii_lib "''https://fw.test''" None False None
      native_world]
  by (simp add: telegram_world_eq)

section \<open>URL and headers of an intercepted request\<close>

text \<open>
  Claim C4. For an intercepted request, in a state that holds a base URL and a token, with
  the caller's headers absent or a dictionary: the hook calls the original function with
  the URL \<open>base @ ''/forward''\<close>; the headers it passes are a new dictionary, at an address
  the store did not have before, whose entries are the caller's entries with
  \<^verbatim>\<open>Authorization\<close> set to \<^verbatim>\<open>Bearer\<close>, a space and the token and \<^verbatim>\<open>X-Api-Token\<close> set to the
  token, every other key keeping its value; and every object that was in the store before
  the call, the caller's dictionary among them, is unchanged.
\<close>

theorem forwarded_url_and_headers:
  assumes "urlparse L (py_str L (url req)) = Inr parsed"
      and "should_intercept st (hostname parsed)"
      and "original_request st = Some f"
      and "proxy_base_url st = Some b"
      and "proxy_token st = Some t"
      and "caller_headers h (kwargs_get (kwargs req) ''headers'') = Some d"
  shows "case patched_request L st h req of
           (Inl e, h') \<Rightarrow> False
         | (Inr (Call g r), h') \<Rightarrow>
             g = f
             \<and> url r = PStr (b @ ''/forward'')
             \<and> map_of (kwargs r) ''headers'' = Some (PRef (length h))
             \<and> heap_get h' (length h) =
                 Some (ODict (AList.update (PStr ''X-Api-Token'') (PStr t)
                         (AList.update (PStr ''Authorization'') (PStr (''Bearer '' @ t)) d)))
             \<and> map_of (AList.update (PStr ''X-Api-Token'') (PStr t)
                         (AList.update (PStr ''Authorization'') (PStr (''Bearer '' @ t)) d))
                 = (map_of d)(PStr ''Authorization'' \<mapsto> PStr (''Bearer '' @ t),
                              PStr ''X-Api-Token'' \<mapsto> PStr t)
             \<and> take (length h) h' = h"
proof -
  let ?hd = "ODict (AList.update (PStr ''X-Api-Token'') (PStr t)
                (AList.update (PStr ''Authorization'') (PStr (''Bearer '' @ t)) d))"
  obtain ext pa where pp:
    "prepare_params L (h @ [?hd]) (kwargs_get (kwargs req) ''params'') (url req)
       = ((h @ [?hd]) @ ext, PRef pa)"
    using prepare_params_prefix by blast
  from patched_request_forwards [OF assms(1) assms(2) assms(3) assms(6)] pp assms(4) assms(5)
  have res: "patched_request L st h req =
      (Inr (Call f (req\<lparr>url := PStr (b @ FORWARD_ENDPOINT),
                        kwargs := AList.update ''params'' (PRef pa)
                          (AList.update ''headers'' (PRef (length h)) (kwargs req))\<rparr>)),
       (h @ [?hd]) @ ext)"
    by (simp add: opt_val_def format_opt_def)
  have m: "map_of (AList.update ''params'' (PRef pa)
              (AList.update ''headers'' (PRef (length h)) (kwargs req))) ''headers''
            = Some (PRef (length h))"
    by (simp add: update_conv')
  show ?thesis
    unfolding res
    by (simp add: m heap_get_appended FORWARD_ENDPOINT_def update_conv' del: append_assoc)
qed

theorem forwarded_url_and_headers_witness:
  "patched_request ascii_lib (state httpbin_world)
       [OInstance 0, ODict [(PStr ''X-Custom'', PStr ''value123''),
                            (PStr ''Authorization'', PStr ''Basic abc'')]]
       (get_request ''https://httpbin.org/get'' [(''headers'', PRef 1), (''timeout'', PInt 20)])
     = (Inr (Call (OtherFn 0)
          \<lparr>self = PRef 0, http_method = PStr ''GET'', url = PStr ''https://fw.test/forward'',
           kwargs = [(''headers'', PRef 2), (''timeout'', PInt 20), (''params'', PRef 3)]\<rparr>),
        [OInstance 0,
         ODict [(PStr ''X-Custom'', PStr ''value123''),
                (PStr ''Authorization'', PStr ''Basic abc'')],
         ODict [(PStr ''X-Custom'', PStr ''value123''),
                (PStr ''Authorization'', PStr ''Bearer tok''),
                (PStr ''X-Api-Token'', PStr ''tok'')],
         ODict [(PStr ''url'', PStr ''https://httpbin.org/get'')]])"
proof -
  let ?h = "[OInstance 0, ODict [(PStr ''X-Custom'', PStr ''value123''),
                                 (PStr ''Authorization'', PStr ''Basic abc'')]]"
  let ?req = "get_request ''https://httpbin.org/get''
                [(''headers'', PRef 1), (''timeout'', PInt 20)]"
  have p: "urlparse ascii_lib (py_str ascii_lib (url ?req))
             = Inr (ParseResult (Some ''httpbin.org''))"
    by code_simp
  have i: "should_intercept (state httpbin_world) (hostname (ParseResult (Some ''httpbin.org'')))"
    by (simp add: httpbin_world_eq should_intercept_def)
  have o: "original_request (state httpbin_world) = Some (OtherFn 0)"
    by (simp add: httpbin_world_eq)
  have b: "proxy_base_url (state httpbin_world) = Some ''https://fw.test''"
    by (simp add: httpbin_world_eq)
  have t: "proxy_token (state httpbin_world) = Some ''tok''"
    by (simp add: httpbin_world_eq)
  have c: "caller_headers ?h (kwargs_get (kwargs ?req) ''headers'')
             = Some [(PStr ''X-Custom'', PStr ''value123''),
                     (PStr ''Authorization'', PStr ''Basic abc'')]"
    by code_simp
  have v: "patched_request ascii_lib (state httpbin_world) ?h ?req
     = (Inr (Call (OtherFn 0)
          \<lparr>self = PRef 0, http_method = PStr ''GET'', url = PStr ''https://fw.test/forward'',
           kwargs = [(''headers'', PRef 2), (''timeout'', PInt 20), (''params'', PRef 3)]\<rparr>),
        [OInstance 0,
         ODict [(PStr ''X-Custom'', PStr ''value123''),
                (PStr ''Authorization'', PStr ''Basic abc'')],
         ODict [(PStr ''X-Custom'', PStr ''value123''),
                (PStr ''Authorization'', PStr ''Bearer tok''),
                (PStr ''X-Api-Token'', PStr ''tok'')],
         ODict [(PStr ''url'', PStr ''https://httpbin.org/get'')]])"
    by code_simp
  from forwarded_url_and_headers [OF p i o b t c] v show ?thesis by simp
qed

text \<open>The base URL a state holds is the one \<^verbatim>\<open>setup_proxy\<close> stripped of trailing slashes.\<close>

lemma setup_proxy_stores_stripped_url:
  assumes "t \<noteq> []"
  shows "proxy_base_url (state (snd (setup_proxy L (Some t) proxy_base_url' hosts
            intercept_all' extra_hosts w))) = Some (rstrip (CHR ''/'') proxy_base_url')"
  using assms by (simp add: setup_proxy_def Let_def)

lemma rstrip_no_trailing: "rstrip c s = [] \<or> last (rstrip c s) \<noteq> c"
proof (cases "dropWhile (\<lambda>x. x = c) (rev s)")
  case Nil
  then show ?thesis by (simp add: rstrip_def)
next
  case (Cons y ys)
  then have "\<not> (y = c)"
    using hd_dropWhile [of "\<lambda>x. x = c" "rev s"] by auto
  with Cons show ?thesis by (simp add: rstrip_def)
qed

section \<open>Activation followed by deactivation\<close>

text \<open>
  Claim C5. From a world that is not active, whatever function the attribute
  \<^verbatim>\<open>requests.Session.request\<close> holds: \<^verbatim>\<open>setup_proxy\<close> with a token that is not empty returns,
  installs the hook and saves the function that was installed; \<^verbatim>\<open>disable_proxy\<close> after it
  puts that very function back, clears the active flag and clears the saved reference. A
  request made then is routed as it was before the activation.
\<close>

theorem activate_deactivate_round_trip:
  assumes "\<not> active (state w)"
      and "t \<noteq> []"
  shows "fst (setup_proxy L (Some t) proxy_base_url' hosts intercept_all' extra_hosts w) = Returned
         \<and> Session_request (snd (setup_proxy L (Some t) proxy_base_url' hosts intercept_all'
               extra_hosts w)) = Some PatchedRequest
         \<and> original_request (state (snd (setup_proxy L (Some t) proxy_base_url' hosts
               intercept_all' extra_hosts w))) = Session_request w
         \<and> Session_request (disable_proxy (snd (setup_proxy L (Some t) proxy_base_url' hosts
               intercept_all' extra_hosts w))) = Session_request w
         \<and> \<not> active (state (disable_proxy (snd (setup_proxy L (Some t) proxy_base_url' hosts
               intercept_all' extra_hosts w))))
         \<and> original_request (state (disable_proxy (snd (setup_proxy L (Some t) proxy_base_url'
               hosts intercept_all' extra_hosts w)))) = None
         \<and> (Session_request w \<noteq> Some PatchedRequest \<longrightarrow>
               session_request L (disable_proxy (snd (setup_proxy L (Some t) proxy_base_url' hosts
                  intercept_all' extra_hosts w))) h req
               = session_request L w h req)"
  using assms
  by (auto simp: setup_proxy_def disable_proxy_def session_request_def Let_def
      split: option.splits request_fn.splits)

theorem activate_deactivate_round_trip_witness:
  "\<not> active (state native_world)
   \<and> Session_request (snd (setup_proxy ascii_lib (Some ''tok'') ''https://fw.test''
         (Some [''httpbin.org'']) False None native_world)) = Some PatchedRequest
   \<and> Session_request (disable_proxy (snd (setup_proxy ascii_lib (Some ''tok'') ''https://fw.test''
         (Some [''httpbin.org'']) False None native_world))) = Some (OtherFn 0)
   \<and> \<not> active (state (disable_proxy (snd (setup_proxy ascii_lib (Some ''tok'')
         ''https://fw.test'' (Some [''httpbin.org'']) False None native_world))))
   \<and> original_request (state (disable_proxy (snd (setup_proxy ascii_lib (Some ''tok'')
         ''https://fw.test'' (Some [''httpbin.org'']) False None native_world)))) = None
   \<and> session_request ascii_lib (disable_proxy (snd (setup_proxy ascii_lib (Some ''tok'')
         ''https://fw.test'' (Some [''httpbin.org'']) False None native_world))) [OInstance 0]
         (get_request ''https://httpbin.org/get'' [])
       = (Inr (Call (OtherFn 0) (get_request ''https://httpbin.org/get'' [])), [OInstance 0])"
proof -
  have a: "\<not> active (state native_world)"
    by (simp add: native_world_def initial_state_def)
  have t: "''tok'' \<noteq> []"
    by simp
  have s: "Session_request native_world = Some (OtherFn 0)"
    by (simp add: native_world_def)
  have r: "session_request ascii_lib native_world [OInstance 0]
             (get_request ''https://httpbin.org/get'' [])
           = (Inr (Call (OtherFn 0) (get_request ''https://httpbin.org/get'' [])), [OInstance 0])"
    by (simp add: session_request_def native_world_def)
  from activate_deactivate_round_trip [OF a t, of ascii_lib "''https://fw.test''"
         "Some [''httpbin.org'']" False None "[OInstance 0]"
         "get_request ''https://httpbin.org/get'' []"] a s r
  show ?thesis by simp
qed

text \<open>
  From an active world \<^verbatim>\<open>setup_proxy\<close> only reconfigures, and \<^verbatim>\<open>disable_proxy\<close> after it
  installs the function saved by the activation that installed the hook.
\<close>

lemma reactivate_deactivate_restores_saved:
  assumes "active (state w)" and "t \<noteq> []"
  shows "Session_request (disable_proxy (snd (setup_proxy L (Some t) proxy_base_url' hosts
            intercept_all' extra_hosts w))) = original_request (state w)"
  using assms by (simp add: setup_proxy_def disable_proxy_def Let_def)

section \<open>The hosts after deactivation\<close>

text \<open>
  Claim C6 says that \<^verbatim>\<open>get_intercepted_hosts\<close> returns the empty set whenever the proxy is
  not active, also after a deactivation that follows a host-based activation; the
  docstring of the function says the same. The code does not: \<^verbatim>\<open>disable_proxy\<close> leaves
  \<^verbatim>\<open>intercepted_hosts\<close> as it is and \<^verbatim>\<open>get_intercepted_hosts\<close> does not look at the active
  flag. The theorem runs \<^verbatim>\<open>setup_proxy(proxy_token="first")\<close>, \<^verbatim>\<open>disable_proxy()\<close> and the
  two getters. (The sets of the model are values, so that the result is a copy is not
  something the model can tell apart.)
\<close>

theorem hosts_survive_deactivation:
  "is_active (disable_proxy telegram_world) = False
   \<and> get_intercepted_hosts (disable_proxy telegram_world) = {''api.telegram.org''}"
  by (simp add: is_active_def get_intercepted_hosts_def disable_proxy_def telegram_world_eq)

section \<open>A URL that does not parse\<close>

text \<open>
  Claim C7. When \<^verbatim>\<open>urlparse\<close> raises on the URL of a request, the hook calls the saved
  original function with \<^verbatim>\<open>self\<close>, method, URL and keyword arguments as it received them,
  touches no object of the store, and raises nothing itself. The saved function is the one
  \<^verbatim>\<open>setup_proxy\<close> stored when it installed the hook.
\<close>

theorem malformed_url_passes_through:
  assumes "urlparse L (py_str L (url req)) = Inl e"
      and "original_request st = Some f"
  shows "patched_request L st h req = (Inr (Call f req), h)"
  using assms by (simp add: patched_request_def call_original_def)

theorem malformed_url_passes_through_witness:
  "patched_request ascii_lib (state telegram_world) []
     \<lparr>self = PNone, http_method = PStr ''GET'', url = PStr ''http://[::1/x'',
      kwargs = [(''timeout'', PInt 20)]\<rparr>
   = (Inr (Call (OtherFn 0)
        \<lparr>self = PNone, http_method = PStr ''GET'', url = PStr ''http://[::1/x'',
         kwargs = [(''timeout'', PInt 20)]\<rparr>), [])"
proof -
  have p: "urlparse ascii_lib (py_str ascii_lib (url
      \<lparr>self = PNone, http_method = PStr ''GET'', url = PStr ''http://[::1/x'',
       kwargs = [(''timeout'', PInt 20)]\<rparr>)) = Inl ValueError"
    by code_simp
  have o: "original_request (state telegram_world) = Some (OtherFn 0)"
    by (simp add: telegram_world_eq)
  show ?thesis by (rule malformed_url_passes_through [OF p o])
qed

section \<open>Activation while active\<close>

text \<open>
  Claim C8. A call of \<^verbatim>\<open>setup_proxy\<close> with a token that is not empty, in a world that is
  active, returns and replaces the base URL (stripped), the token, the intercept mode, the
  host set and the cached forwarder host name by the newly resolved values; the active
  flag stays true, the saved original function and the function installed in
  \<^verbatim>\<open>requests.Session.request\<close> stay what they were.
\<close>

theorem reactivation_overwrites_configuration:
  assumes "active (state w)"
      and "t \<noteq> []"
  shows "setup_proxy L (Some t) proxy_base_url' hosts intercept_all' extra_hosts w =
           (Returned,
            w\<lparr>state := (state w)
                 \<lparr>proxy_base_url := Some (rstrip (CHR ''/'') proxy_base_url'),
                  proxy_token := Some t,
                  intercept_all := intercept_all',
                  intercepted_hosts := resolve_hosts hosts intercept_all' extra_hosts,
                  forwarder_host := parse_forwarder_host L (rstrip (CHR ''/'') proxy_base_url')\<rparr>\<rparr>)
         \<and> active (state (snd (setup_proxy L (Some t) proxy_base_url' hosts intercept_all'
               extra_hosts w)))
         \<and> original_request (state (snd (setup_proxy L (Some t) proxy_base_url' hosts
               intercept_all' extra_hosts w))) = original_request (state w)
         \<and> Session_request (snd (setup_proxy L (Some t) proxy_base_url' hosts intercept_all'
               extra_hosts w)) = Session_request w"
  using assms by (simp add: setup_proxy_def Let_def)

theorem reactivation_overwrites_configuration_witness:
  "active (state telegram_world)
   \<and> setup_proxy ascii_lib (Some ''second'') ''https://new.example.com/'' None True None
         telegram_world
       = (Returned,
          \<lparr>state = \<lparr>original_request = Some (OtherFn 0),
                     proxy_base_url = Some ''https://new.example.com'',
                     proxy_token = Some ''second'', active = True, intercept_all = True,
                     intercepted_hosts = {},
                     forwarder_host = Some ''new.example.com''\<rparr>,
           Session_request = Some PatchedRequest\<rparr>)"
proof -
  have a: "active (state telegram_world)"
    by (simp add: telegram_world_eq)
  have t: "''second'' \<noteq> []"
    by simp
  have f: "parse_forwarder_host ascii_lib (rstrip (CHR ''/'') ''https://new.example.com/'')
             = Some ''new.example.com''"
    by code_simp
  have r: "rstrip (CHR ''/'') ''https://new.example.com/'' = ''https://new.example.com''"
    by code_simp
  from reactivation_overwrites_configuration [OF a t, of ascii_lib
         "''https://new.example.com/''" None True None] a f r
  show ?thesis
    by (simp add: telegram_world_eq resolve_hosts_def)
qed

section \<open>The token while active\<close>

text \<open>
  Claim C9. If the invariant holds before (active implies a stored token that is not
  empty), it holds after any call of \<^verbatim>\<open>setup_proxy\<close>, whether it returns or raises, and
  after \<^verbatim>\<open>disable_proxy\<close>. The hook is given the state and hands none back (the source
  never assigns to \<^verbatim>\<open>_state\<close> in \<^verbatim>\<open>_patched_request\<close>), so a request leaves the invariant
  as it finds it. The invariant holds in the initial state.
\<close>

theorem token_invariant_preserved:
  assumes "token_invariant w"
  shows "token_invariant (snd (setup_proxy L proxy_token' proxy_base_url' hosts intercept_all'
                                 extra_hosts w))
         \<and> token_invariant (disable_proxy w)"
  using assms by (simp add: setup_proxy_token_invariant disable_proxy_token_invariant)

theorem token_invariant_preserved_witness:
  "token_invariant native_world
   \<and> token_invariant (snd (setup_proxy ascii_lib (Some ''tok'') ''https://fw.test'' None False
         None native_world))
   \<and> active (state (snd (setup_proxy ascii_lib (Some ''tok'') ''https://fw.test'' None False
         None native_world)))
   \<and> token_invariant (snd (setup_proxy ascii_lib (Some []) ''https://fw.test'' None False
         None telegram_world))
   \<and> token_invariant (disable_proxy telegram_world)"
proof -
  have n: "token_invariant native_world"
    by (simp add: token_invariant_def native_world_def initial_state_def)
  have a: "active (state (snd (setup_proxy ascii_lib (Some ''tok'') ''https://fw.test'' None False
         None native_world)))"
    by (simp add: setup_proxy_def native_world_def initial_state_def Let_def)
  have g: "token_invariant telegram_world"
    by (simp add: token_invariant_def telegram_world_eq)
  from token_invariant_preserved [OF n, of ascii_lib "Some ''tok''" "''https://fw.test''"
         None False None]
       token_invariant_preserved [OF g, of ascii_lib "Some []" "''https://fw.test''"
         None False None] n a
  show ?thesis by simp
qed

section \<open>No host name in intercept-all mode\<close>

text \<open>
  Claim C10. In intercept-all mode, for a request whose URL parses to no host name: the
  request is passed through unchanged exactly when the cached forwarder host name is
  absent too; when a forwarder host name is cached the request is intercepted, and with
  headers absent or a dictionary it goes to the original function with the forward URL and
  with query parameters.
\<close>

theorem no_hostname_in_intercept_all_mode:
  assumes "intercept_all st"
      and "urlparse L (py_str L (url req)) = Inr parsed"
      and "hostname parsed = None"
      and "original_request st = Some f"
  shows "((patched_request L st h req = (Inr (Call f req), h)) = (forwarder_host st = None))
         \<and> (forwarder_host st \<noteq> None
              \<longrightarrow> caller_headers h (kwargs_get (kwargs req) ''headers'') \<noteq> None
              \<longrightarrow> (case patched_request L st h req of
                     (Inl e, h') \<Rightarrow> False
                   | (Inr (Call g r), h') \<Rightarrow>
                       g = f \<and> url r = PStr (format_opt (proxy_base_url st) @ FORWARD_ENDPOINT)
                       \<and> map_of (kwargs r) ''params'' \<noteq> None))"
proof (cases "forwarder_host st")
  case None
  with assms have "\<not> should_intercept st (hostname parsed)"
    by (simp add: should_intercept_def)
  with assms have "patched_request L st h req = (Inr (Call f req), h)"
    by (simp add: patched_request_passes)
  with None show ?thesis by simp
next
  case (Some fh)
  with assms have si: "should_intercept st (hostname parsed)"
    by (simp add: should_intercept_def)
  have ne: "patched_request L st h req \<noteq> (Inr (Call f req), h)"
    using patched_request_intercepted_cases [OF assms(2) si assms(4), of h] by auto
  have fw: "case patched_request L st h req of
              (Inl e, h') \<Rightarrow> False
            | (Inr (Call g r), h') \<Rightarrow>
                g = f \<and> url r = PStr (format_opt (proxy_base_url st) @ FORWARD_ENDPOINT)
                \<and> map_of (kwargs r) ''params'' \<noteq> None"
    if "caller_headers h (kwargs_get (kwargs req) ''headers'') \<noteq> None"
  proof -
    from that obtain d where d: "caller_headers h (kwargs_get (kwargs req) ''headers'') = Some d"
      by blast
    show ?thesis
      unfolding patched_request_forwards [OF assms(2) si assms(4) d]
      by (simp add: update_conv' split: prod.splits)
  qed
  from Some ne fw show ?thesis by simp
qed

theorem no_hostname_in_intercept_all_mode_witness:
  "forwarder_host (state unparsed_relay_world) = None
   \<and> patched_request ascii_lib (state unparsed_relay_world) [OInstance 0]
         (get_request ''photos/cat.png'' [])
       = (Inr (Call (OtherFn 0) (get_request ''photos/cat.png'' [])), [OInstance 0])
   \<and> forwarder_host (state intercept_all_world) = Some ''fw.test''
   \<and> patched_request ascii_lib (state intercept_all_world) [OInstance 0]
         (get_request ''photos/cat.png'' [])
       = (Inr (Call (OtherFn 0)
            \<lparr>self = PRef 0, http_method = PStr ''GET'', url = PStr ''https://fw.test/forward'',
             kwargs = [(''headers'', PRef 1), (''params'', PRef 2)]\<rparr>),
          [OInstance 0,
           ODict [(PStr ''Authorization'', PStr ''Bearer tok''),
                  (PStr ''X-Api-Token'', PStr ''tok'')],
           ODict [(PStr ''url'', PStr ''photos/cat.png'')]])"
proof -
  have p: "urlparse ascii_lib (py_str ascii_lib (url (get_request ''photos/cat.png'' [])))
             = Inr (ParseResult None)"
    by code_simp
  have n: "hostname (ParseResult None) = None"
    by simp
  have a1: "intercept_all (state unparsed_relay_world)"
    by (simp add: unparsed_relay_world_eq)
  have o1: "original_request (state unparsed_relay_world) = Some (OtherFn 0)"
    by (simp add: unparsed_relay_world_eq)
  have a2: "intercept_all (state intercept_all_world)"
    by (simp add: intercept_all_world_eq)
  have o2: "original_request (state intercept_all_world) = Some (OtherFn 0)"
    by (simp add: intercept_all_world_eq)
  have v: "patched_request ascii_lib (state intercept_all_world) [OInstance 0]
         (get_request ''photos/cat.png'' [])
       = (Inr (Call (OtherFn 0)
            \<lparr>self = PRef 0, http_method = PStr ''GET'', url = PStr ''https://fw.test/forward'',
             kwargs = [(''headers'', PRef 1), (''params'', PRef 2)]\<rparr>),
          [OInstance 0,
           ODict [(PStr ''Authorization'', PStr ''Bearer tok''),
                  (PStr ''X-Api-Token'', PStr ''tok'')],
           ODict [(PStr ''url'', PStr ''photos/cat.png'')]])"
    by code_simp
  from no_hostname_in_intercept_all_mode [OF a1 p n o1, of "[OInstance 0]"]
       no_hostname_in_intercept_all_mode [OF a2 p n o2, of "[OInstance 0]"] v
  show ?thesis
    by (simp add: unparsed_relay_world_eq intercept_all_world_eq)
qed

end
